theory Spec2Isabelle
  imports Main
begin

section \<open>JavaScript strings\<close>

text \<open>
  A JavaScript string is a sequence of UTF-16 code units; a code unit is represented by
  its numeric value. \<open>js\<close> writes an ASCII literal; other code units are written
  as numerals (\<open>0x2014\<close> is the em dash, \<open>0x201C\<close> the typographic left double quote,
  \<open>34\<close> the straight double quote).
\<close>

type_synonym jstr = "nat list"

definition js :: "string \<Rightarrow> jstr" where
  "js s = map of_char s"

text \<open>\<open>String.prototype.startsWith\<close>, \<open>endsWith\<close> and \<open>includes\<close> (here \<open>includesStr\<close>).\<close>

fun startsWith :: "jstr \<Rightarrow> jstr \<Rightarrow> bool" where
  "startsWith s [] = True"
| "startsWith [] (p # ps) = False"
| "startsWith (c # cs) (p # ps) = (c = p \<and> startsWith cs ps)"

definition endsWith :: "jstr \<Rightarrow> jstr \<Rightarrow> bool" where
  "endsWith s t = startsWith (rev s) (rev t)"

fun includesStr :: "jstr \<Rightarrow> jstr \<Rightarrow> bool" where
  "includesStr [] t = (t = [])"
| "includesStr (c # cs) t = (startsWith (c # cs) t \<or> includesStr cs t)"

text \<open>\<open>Array.prototype.join\<close> on an array of strings.\<close>

fun join :: "jstr \<Rightarrow> jstr list \<Rightarrow> jstr" where
  "join sep [] = []"
| "join sep [x] = x"
| "join sep (x # y # ys) = x @ sep @ join sep (y # ys)"

text \<open>
  The character classes of the regular expressions in the source: \<open>\s\<close> (and the set
  \<open>trim\<close> strips) is WhiteSpace together with LineTerminator; \<open>.\<close> is every code unit
  but a LineTerminator; \<open>\d\<close>, \<open>[A-Z]\<close>, \<open>[a-z]\<close>, \<open>[A-Z0-9]\<close> are code-unit ranges.
\<close>

definition isLineTerminator :: "nat \<Rightarrow> bool" where
  "isLineTerminator c \<longleftrightarrow> c = 10 \<or> c = 13 \<or> c = 0x2028 \<or> c = 0x2029"

definition isWhiteSpace :: "nat \<Rightarrow> bool" where
  "isWhiteSpace c \<longleftrightarrow>
     c = 9 \<or> c = 11 \<or> c = 12 \<or> c = 32 \<or> c = 0xA0 \<or> c = 0x1680
     \<or> (0x2000 \<le> c \<and> c \<le> 0x200A) \<or> c = 0x202F \<or> c = 0x205F \<or> c = 0x3000
     \<or> c = 0xFEFF \<or> isLineTerminator c"

definition isDot :: "nat \<Rightarrow> bool" where
  "isDot c \<longleftrightarrow> \<not> isLineTerminator c"

definition isDigit :: "nat \<Rightarrow> bool" where
  "isDigit c \<longleftrightarrow> 48 \<le> c \<and> c \<le> 57"

definition isUpperAZ :: "nat \<Rightarrow> bool" where
  "isUpperAZ c \<longleftrightarrow> 65 \<le> c \<and> c \<le> 90"

definition isLowerAZ :: "nat \<Rightarrow> bool" where
  "isLowerAZ c \<longleftrightarrow> 97 \<le> c \<and> c \<le> 122"

definition isUpperOrDigit :: "nat \<Rightarrow> bool" where
  "isUpperOrDigit c \<longleftrightarrow> isUpperAZ c \<or> isDigit c"

text \<open>\<open>String.prototype.trim\<close>.\<close>

definition trim :: "jstr \<Rightarrow> jstr" where
  "trim s = rev (dropWhile isWhiteSpace (rev (dropWhile isWhiteSpace s)))"

text \<open>
  Quantified character classes of a backtracking matcher. The continuation \<open>k\<close> gets the
  text the quantifier matched and the rest of the input, and answers with the match of
  the rest of the pattern, or \<open>None\<close>, on which the quantifier tries its next length:
  a greedy quantifier the next shorter one, a lazy quantifier the next longer one.
\<close>

fun greedyStar :: "(nat \<Rightarrow> bool) \<Rightarrow> (jstr \<Rightarrow> jstr \<Rightarrow> 'a option) \<Rightarrow> jstr \<Rightarrow> jstr \<Rightarrow> 'a option" where
  "greedyStar p k acc [] = k acc []"
| "greedyStar p k acc (c # cs) =
     (if p c then
        (case greedyStar p k (acc @ [c]) cs of
           Some r \<Rightarrow> Some r
         | None \<Rightarrow> k acc (c # cs))
      else k acc (c # cs))"

definition greedyPlus :: "(nat \<Rightarrow> bool) \<Rightarrow> (jstr \<Rightarrow> jstr \<Rightarrow> 'a option) \<Rightarrow> jstr \<Rightarrow> 'a option" where
  "greedyPlus p k s =
     (case s of
        [] \<Rightarrow> None
      | c # cs \<Rightarrow> if p c then greedyStar p k [c] cs else None)"

fun lazyStar :: "(nat \<Rightarrow> bool) \<Rightarrow> (jstr \<Rightarrow> jstr \<Rightarrow> 'a option) \<Rightarrow> jstr \<Rightarrow> jstr \<Rightarrow> 'a option" where
  "lazyStar p k acc [] = k acc []"
| "lazyStar p k acc (c # cs) =
     (case k acc (c # cs) of
        Some r \<Rightarrow> Some r
      | None \<Rightarrow> if p c then lazyStar p k (acc @ [c]) cs else None)"

definition lazyPlus :: "(nat \<Rightarrow> bool) \<Rightarrow> (jstr \<Rightarrow> jstr \<Rightarrow> 'a option) \<Rightarrow> jstr \<Rightarrow> 'a option" where
  "lazyPlus p k s =
     (case s of
        [] \<Rightarrow> None
      | c # cs \<Rightarrow> if p c then lazyStar p k [c] cs else None)"

text \<open>A literal code unit of a pattern, then the rest of the pattern.\<close>

definition lit :: "nat \<Rightarrow> (jstr \<Rightarrow> 'a option) \<Rightarrow> jstr \<Rightarrow> 'a option" where
  "lit x k s =
     (case s of
        [] \<Rightarrow> None
      | c # cs \<Rightarrow> if c = x then k cs else None)"

text \<open>One code unit of a character class, then the rest of the pattern.\<close>

definition cls :: "(nat \<Rightarrow> bool) \<Rightarrow> (jstr \<Rightarrow> 'a option) \<Rightarrow> jstr \<Rightarrow> 'a option" where
  "cls p k s =
     (case s of
        [] \<Rightarrow> None
      | c # cs \<Rightarrow> if p c then k cs else None)"

text \<open>\<open>$\<close> without the multiline flag: the end of the input.\<close>

definition atEnd :: "'a \<Rightarrow> jstr \<Rightarrow> 'a option" where
  "atEnd r s = (if s = [] then Some r else None)"

section \<open>The host's case conversion\<close>

text \<open>
  \<open>toLowerCase\<close> and \<open>toUpperCase\<close> are the host's locale-independent Unicode case
  conversions. On ASCII they are fixed: the letters change case, every other ASCII code
  unit stays. For a code unit above 127 the result is read from the host's tables, which
  are a parameter of the model: a table gets the code units before, the code unit itself
  and the code units after (the conversion of a surrogate pair or of a final sigma depends
  on its neighbours) and returns what stands for that code unit in the result.
\<close>

record host =
  lowerTable :: "jstr \<Rightarrow> nat \<Rightarrow> jstr \<Rightarrow> jstr"
  upperTable :: "jstr \<Rightarrow> nat \<Rightarrow> jstr \<Rightarrow> jstr"

definition asciiLower :: "nat \<Rightarrow> nat" where
  "asciiLower c = (if isUpperAZ c then c + 32 else c)"

definition asciiUpper :: "nat \<Rightarrow> nat" where
  "asciiUpper c = (if isLowerAZ c then c - 32 else c)"

fun convertCase :: "(nat \<Rightarrow> nat) \<Rightarrow> (jstr \<Rightarrow> nat \<Rightarrow> jstr \<Rightarrow> jstr) \<Rightarrow> jstr \<Rightarrow> jstr \<Rightarrow> jstr" where
  "convertCase ascii table pre [] = []"
| "convertCase ascii table pre (c # post) =
     (if c < 128 then [ascii c] else table pre c post)
       @ convertCase ascii table (pre @ [c]) post"

definition toLowerCase :: "host \<Rightarrow> jstr \<Rightarrow> jstr" where
  "toLowerCase H s = convertCase asciiLower (lowerTable H) [] s"

definition toUpperCase :: "host \<Rightarrow> jstr \<Rightarrow> jstr" where
  "toUpperCase H s = convertCase asciiUpper (upperTable H) [] s"

text \<open>A host whose tables leave every code unit above 127 as it is, for ASCII examples.\<close>

definition asciiHost :: host where
  "asciiHost = \<lparr>lowerTable = (\<lambda>pre c post. [c]), upperTable = (\<lambda>pre c post. [c])\<rparr>"

section \<open>The classifier\<close>

text \<open>
  \<open>isRuleLine\<close> (the same function in all three copies of the gallery generator). The
  two patterns are \<open>/^[A-Z][a-z]+ [em dash]/\<close> (a space and an em dash after the word)
  and \<open>/^[A-Z][a-z]+\s\d+$/\<close>.
\<close>

definition abilityWordRegex :: "jstr \<Rightarrow> bool" where
  "abilityWordRegex line =
     (cls isUpperAZ (greedyPlus isLowerAZ (\<lambda>w rest.
        lit 32 (lit 0x2014 (\<lambda>rest'. Some ())) rest)) line \<noteq> None)"

definition keywordNumberRegex :: "jstr \<Rightarrow> bool" where
  "keywordNumberRegex line =
     (cls isUpperAZ (greedyPlus isLowerAZ (\<lambda>w rest.
        cls isWhiteSpace (greedyPlus isDigit (\<lambda>n rest'. atEnd () rest')) rest)) line \<noteq> None)"

definition mechanics :: "jstr list" where
  "mechanics = map js
    [''target'', ''battlefield'', ''graveyard'', ''library'', ''exile'',
     ''damage'', ''life'', ''counter'', ''token'', ''create'', ''sacrifice'',
     ''destroy'', ''draw'', ''discard'', ''tap'', ''untap'', ''equip'', ''attach'',
     ''cast'', ''activate'', ''enter'', ''leaves'', ''die'', ''regenerate'',
     ''fight'', ''scry'', ''mill'', ''look'', ''reveal'', ''shuffle'',
     ''flying'', ''haste'', ''trample'', ''vigilance'', ''first strike'',
     ''double strike'', ''deathtouch'', ''reach'', ''lifelink'', ''hexproof'',
     ''ward'', ''protection'', ''flash'', ''defender'', ''+1/+1'', ''-1/-1'',
     ''fabricate'', ''cascade'', ''exalted'', ''affinity'', ''replicate'', ''storm'',
     ''cycling'', ''fear'', ''intimidate'', ''landwalk'', ''shroud'']"

definition isRuleLine :: "host \<Rightarrow> jstr \<Rightarrow> bool" where
  "isRuleLine H line =
     (if includesStr line (js ''{'') \<or> includesStr line (js ''}'') then True
      else if abilityWordRegex line then True
      else if keywordNumberRegex line then True
      else (let lower = toLowerCase H line
            in list_ex (\<lambda>t. includesStr lower t) mechanics))"

section \<open>Card records and finalization (gallery generator)\<close>

record Card =
  id_card :: jstr
  name :: jstr
  cost :: jstr
  type :: jstr
  text_card :: "jstr list"
  flavor :: "jstr list"

definition newCard :: Card where
  "newCard = \<lparr>id_card = [], name = [], cost = [], type = [], text_card = [], flavor = []\<rparr>"

text \<open>
  \<open>idTagRegex\<close> is
  \<open>/^\[([A-Z0-9]+)\]\s+(.+?)(?:\s+(\{.*\})\s*)?$/\<close>. A match gives the groups 1, 2
  and 3; group 3 is undefined (\<open>None\<close>) when the optional part matched nothing.
  \<open>costGroup\<close> is the optional part followed by the end of the input.
\<close>

type_synonym idLine = "jstr \<times> jstr \<times> jstr option"

definition costGroup :: "jstr \<Rightarrow> jstr option" where
  "costGroup s =
     greedyPlus isWhiteSpace (\<lambda>ws rest.
       lit 123 (greedyStar isDot (\<lambda>inner rest'.
         lit 125 (greedyStar isWhiteSpace (\<lambda>ws' rest''.
           atEnd (123 # inner @ [125]) rest'') []) rest') []) rest) s"

definition idTagRegex :: "jstr \<Rightarrow> idLine option" where
  "idTagRegex s =
     lit 91 (greedyPlus isUpperOrDigit (\<lambda>g1 rest.
       lit 93 (greedyPlus isWhiteSpace (\<lambda>ws rest'.
         lazyPlus isDot (\<lambda>g2 rest''.
           (case costGroup rest'' of
              Some g3 \<Rightarrow> Some (g1, g2, Some g3)
            | None \<Rightarrow> atEnd (g1, g2, None) rest'')) rest')) rest)) s"

text \<open>The fallback test \<open>/^\[[A-Z]+\d+\]/\<close>.\<close>

definition tagRegex :: "jstr \<Rightarrow> bool" where
  "tagRegex s =
     (lit 91 (greedyPlus isUpperAZ (\<lambda>letters rest.
        greedyPlus isDigit (\<lambda>digits rest'.
          lit 93 (\<lambda>rest''. Some ()) rest') rest)) s \<noteq> None)"

text \<open>
  \<open>sourceTagRegex\<close> is \<open>/^\\s*/\<close>: a backslash and then any number of letters \<open>s\<close>.
  \<open>cleanLine\<close> is \<open>line.replace(sourceTagRegex, '').trim()\<close>.
\<close>

definition replaceSourceTag :: "jstr \<Rightarrow> jstr" where
  "replaceSourceTag line =
     (case line of
        [] \<Rightarrow> []
      | c # cs \<Rightarrow> if c = 92 then dropWhile (\<lambda>x. x = 115) cs else line)"

definition cleanLine :: "jstr \<Rightarrow> jstr" where
  "cleanLine line = trim (replaceSourceTag line)"

text \<open>
  The body of the bottom-up loop of \<open>finalizeCard\<close>, on the loop's state
  \<open>(processingFlavor, rulesStack, flavorStack)\<close>; \<open>unshift\<close> puts a line in front.
\<close>

definition isQuoted :: "jstr \<Rightarrow> bool" where
  "isQuoted line \<longleftrightarrow> startsWith line [0x201C] \<or> startsWith line [34]"

definition scanLine :: "host \<Rightarrow> jstr \<Rightarrow> bool \<times> jstr list \<times> jstr list \<Rightarrow> bool \<times> jstr list \<times> jstr list" where
  "scanLine H line st =
     (case st of (processingFlavor, rulesStack, flavorStack) \<Rightarrow>
        if isQuoted line then (processingFlavor, rulesStack, line # flavorStack)
        else
          (let processingFlavor' = (if isRuleLine H line then False else processingFlavor)
           in if processingFlavor' then (processingFlavor', rulesStack, line # flavorStack)
              else (processingFlavor', line # rulesStack, flavorStack)))"

text \<open>
  The loop runs from the last line of \<open>remaining\<close> to the first: the lines below a line
  are scanned before it.
\<close>

definition backwardScan :: "host \<Rightarrow> jstr list \<Rightarrow> bool \<times> jstr list \<times> jstr list" where
  "backwardScan H remaining = foldr (scanLine H) remaining (True, [], [])"

datatype error = ENOENT | TypeError

text \<open>
  \<open>finalizeCard\<close> reads \<open>idLineMatch[1]\<close>: on \<open>null\<close> that is a TypeError.
\<close>

definition finalizeCard :: "host \<Rightarrow> idLine option \<Rightarrow> jstr list \<Rightarrow> error + Card" where
  "finalizeCard H idLineMatch bodyLines =
     (case idLineMatch of
        None \<Rightarrow> Inl TypeError
      | Some (g1, g2, g3) \<Rightarrow>
          (let crd = newCard\<lparr>id_card := g1, name := g2,
                               cost := (case g3 of None \<Rightarrow> [] | Some c \<Rightarrow> c)\<rparr>;
               cleanBody = filter (\<lambda>l. length (trim l) > 0) bodyLines
           in if length cleanBody > 0 then
                (let remaining = drop 1 cleanBody;
                     (processingFlavor, rulesStack, flavorStack) = backwardScan H remaining
                 in Inr (crd\<lparr>type := hd cleanBody, text_card := rulesStack, flavor := flavorStack\<rparr>))
              else Inr crd))"

section \<open>The document parser (gallery generator with sections)\<close>

datatype sectionName = INTRO | FLAVOR | MECHANICS | CARDS

record setInfo =
  flavorInfo :: "jstr list"
  mechanicsInfo :: "jstr list"

record parser =
  cards :: "Card list"
  info :: setInfo
  currentIdLine :: "idLine option"
  currentBuffer :: "jstr list"
  parsingSection :: sectionName

definition initial :: parser where
  "initial = \<lparr>cards = [], info = \<lparr>flavorInfo = [], mechanicsInfo = []\<rparr>,
              currentIdLine = None, currentBuffer = [], parsingSection = INTRO\<rparr>"

text \<open>\<open>if (currentIdLine) cards.push(finalizeCard(currentIdLine, currentBuffer))\<close>.\<close>

definition pushOpenCard :: "host \<Rightarrow> parser \<Rightarrow> error + parser" where
  "pushOpenCard H st =
     (if currentIdLine st \<noteq> None then
        (case finalizeCard H (currentIdLine st) (currentBuffer st) of
           Inl e \<Rightarrow> Inl e
         | Inr crd \<Rightarrow> Inr (st\<lparr>cards := cards st @ [crd]\<rparr>))
      else Inr st)"

text \<open>The callback of \<open>lines.forEach\<close>.\<close>

definition parseLine :: "host \<Rightarrow> parser \<Rightarrow> jstr \<Rightarrow> error + parser" where
  "parseLine H st line =
     (let cl = cleanLine line
      in if cl = [] then Inr st
         else if includesStr cl (js ''1. FLAVOR & WORLD'') then Inr (st\<lparr>parsingSection := FLAVOR\<rparr>)
         else if includesStr cl (js ''2. MECHANICAL IDENTITIES'') then Inr (st\<lparr>parsingSection := MECHANICS\<rparr>)
         else if includesStr cl (js ''3. CARD FILE'') then Inr (st\<lparr>parsingSection := CARDS\<rparr>)
         else if parsingSection st = FLAVOR then
           Inr (st\<lparr>info := (info st)\<lparr>flavorInfo := flavorInfo (info st) @ [cl]\<rparr>\<rparr>)
         else if parsingSection st = MECHANICS then
           Inr (st\<lparr>info := (info st)\<lparr>mechanicsInfo := mechanicsInfo (info st) @ [cl]\<rparr>\<rparr>)
         else if parsingSection st = CARDS then
           (let match = idTagRegex cl
            in if match \<noteq> None \<or> tagRegex cl then
                 (case pushOpenCard H st of
                    Inl e \<Rightarrow> Inl e
                  | Inr st' \<Rightarrow>
                      Inr (st'\<lparr>currentIdLine :=
                                  (case match of
                                     Some m \<Rightarrow> Some m
                                   | None \<Rightarrow> Some (js ''UNKNOWN'', cl, Some [])),
                                currentBuffer := []\<rparr>))
               else if currentIdLine st \<noteq> None then
                 Inr (st\<lparr>currentBuffer := currentBuffer st @ [cl]\<rparr>)
               else Inr st)
         else Inr st)"

fun forEachLine :: "host \<Rightarrow> parser \<Rightarrow> jstr list \<Rightarrow> error + parser" where
  "forEachLine H st [] = Inr st"
| "forEachLine H st (line # lines) =
     (case parseLine H st line of
        Inl e \<Rightarrow> Inl e
      | Inr st' \<Rightarrow> forEachLine H st' lines)"

text \<open>\<open>content.split(/\r?\n/)\<close>: \<open>current\<close> is the line read so far.\<close>

fun splitLines :: "jstr \<Rightarrow> jstr \<Rightarrow> jstr list" where
  "splitLines current [] = [current]"
| "splitLines current [c] = (if c = 10 then [current, []] else [current @ [c]])"
| "splitLines current (c # d # rest) =
     (if c = 10 then current # splitLines [] (d # rest)
      else if c = 13 \<and> d = 10 then current # splitLines [] rest
      else splitLines (current @ [c]) (d # rest))"

text \<open>
  What follows \<open>readFileSync\<close>: the lines are split and scanned, the open card is
  closed, and \<open>{ cards, setInfo }\<close> is returned.
\<close>

definition parseLines :: "host \<Rightarrow> jstr list \<Rightarrow> error + Card list \<times> setInfo" where
  "parseLines H lines =
     (case forEachLine H initial lines of
        Inl e \<Rightarrow> Inl e
      | Inr st \<Rightarrow>
          (case pushOpenCard H st of
             Inl e \<Rightarrow> Inl e
           | Inr st' \<Rightarrow> Inr (cards st', info st')))"

text \<open>
  \<open>parseDesignBible\<close>: the file system is a map from paths to contents, and
  \<open>readFileSync\<close> of a path that is not there throws (ENOENT).
\<close>

definition parseDesignBible :: "host \<Rightarrow> (jstr \<rightharpoonup> jstr) \<Rightarrow> jstr \<Rightarrow> error + Card list \<times> setInfo" where
  "parseDesignBible H fs filePath =
     (case fs filePath of
        None \<Rightarrow> Inl ENOENT
      | Some content \<Rightarrow> parseLines H (splitLines [] content))"

section \<open>The art generator: card class, identity and parser\<close>

text \<open>
  The card class of \<open>generate_alara.mjs\<close>: its \<open>flavor\<close> is one string, its \<open>text\<close>
  an array of lines.
\<close>

record ArtCard =
  id_art :: jstr
  name_art :: jstr
  cost_art :: jstr
  type_art :: jstr
  text_art :: "jstr list"
  flavor_art :: jstr

definition newArtCard :: ArtCard where
  "newArtCard = \<lparr>id_art = [], name_art = [], cost_art = [], type_art = [], text_art = [], flavor_art = []\<rparr>"

text \<open>
  \<open>Set.prototype.add\<close> on a set kept in insertion order, which is the order
  \<open>Array.from\<close> returns.
\<close>

definition setAdd :: "jstr list \<Rightarrow> jstr \<Rightarrow> jstr list" where
  "setAdd colors x = (if x \<in> set colors then colors else colors @ [x])"

definition getColorIdentity :: "host \<Rightarrow> ArtCard \<Rightarrow> jstr list" where
  "getColorIdentity H c =
     (let colors = [];
          fullString = toUpperCase H (cost_art c @ js '' '' @ join (js '' '') (text_art c));
          colors = (if includesStr fullString (js ''{W}'') then setAdd colors (js ''White'') else colors);
          colors = (if includesStr fullString (js ''{U}'') then setAdd colors (js ''Blue'') else colors);
          colors = (if includesStr fullString (js ''{B}'') then setAdd colors (js ''Black'') else colors);
          colors = (if includesStr fullString (js ''{R}'') then setAdd colors (js ''Red'') else colors);
          colors = (if includesStr fullString (js ''{G}'') then setAdd colors (js ''Green'') else colors)
      in colors)"

definition getShardIdentity :: "host \<Rightarrow> ArtCard \<Rightarrow> jstr" where
  "getShardIdentity H crd =
     (let nameLower = toLowerCase H (name_art crd);
          textLower = toLowerCase H (join (js '' '') (text_art crd));
          typeLower = toLowerCase H (type_art crd);
          c = getColorIdentity H crd;
          colorCount = length c;
          hasW = (js ''White'' \<in> set c);
          hasU = (js ''Blue'' \<in> set c);
          hasB = (js ''Black'' \<in> set c);
          hasR = (js ''Red'' \<in> set c);
          hasG = (js ''Green'' \<in> set c)
      in
      if includesStr nameLower (js ''esper'') then js ''The Shard of Esper (Alara)''
      else if includesStr nameLower (js ''grixis'') then js ''The Shard of Grixis (Alara)''
      else if includesStr nameLower (js ''jund'') then js ''The Shard of Jund (Alara)''
      else if includesStr nameLower (js ''naya'') then js ''The Shard of Naya (Alara)''
      else if includesStr nameLower (js ''bant'') then js ''The Shard of Bant (Alara)''
      else if includesStr textLower (js ''fabricate'') then js ''The Shard of Esper (Alara)''
      else if includesStr textLower (js ''covenant'') then js ''The Shard of Bant (Alara)''
      else if includesStr textLower (js ''exhume'') then js ''The Shard of Grixis (Alara)''
      else if includesStr textLower (js ''carnage'') then js ''The Shard of Jund (Alara)''
      else if includesStr textLower (js ''titanic'') then js ''The Shard of Naya (Alara)''
      else if includesStr textLower (js ''spectrum'') then js ''The Conflux of Alara (Five-Color Energy)''
      else if colorCount = 3 \<and> hasW \<and> hasU \<and> hasB then js ''The Shard of Esper (Alara)''
      else if colorCount = 3 \<and> hasU \<and> hasB \<and> hasR then js ''The Shard of Grixis (Alara)''
      else if colorCount = 3 \<and> hasB \<and> hasR \<and> hasG then js ''The Shard of Jund (Alara)''
      else if colorCount = 3 \<and> hasR \<and> hasG \<and> hasW then js ''The Shard of Naya (Alara)''
      else if colorCount = 3 \<and> hasG \<and> hasW \<and> hasU then js ''The Shard of Bant (Alara)''
      else if colorCount = 2 \<and> hasW \<and> hasU then js ''The Shard of Esper (Alara) or Bant''
      else if colorCount = 2 \<and> hasU \<and> hasB then js ''The Shard of Esper (Alara) or Grixis''
      else if colorCount = 2 \<and> hasB \<and> hasR then js ''The Shard of Jund (Alara) or Grixis''
      else if colorCount = 2 \<and> hasR \<and> hasG then js ''The Shard of Jund (Alara) or Naya''
      else if colorCount = 2 \<and> hasG \<and> hasW then js ''The Shard of Bant (Alara) or Naya''
      else if includesStr typeLower (js ''artifact'') then js ''The Shard of Esper (Alara)''
      else if includesStr typeLower (js ''zombie'') \<or> includesStr typeLower (js ''demon'')
        then js ''The Shard of Grixis (Alara)''
      else if includesStr typeLower (js ''dragon'') \<or> includesStr typeLower (js ''viashino'')
              \<or> includesStr typeLower (js ''goblin'')
        then js ''The Shard of Jund (Alara)''
      else if includesStr typeLower (js ''beast'') \<or> includesStr typeLower (js ''gargantuan'')
        then js ''The Shard of Naya (Alara)''
      else if includesStr typeLower (js ''angel'') \<or> includesStr typeLower (js ''soldier'')
        then js ''The Shard of Bant (Alara)''
      else if colorCount \<ge> 4 then js ''The Maelstrom of Alara (Chaotic Mana Storm)''
      else js ''The Plane of Alara'')"

text \<open>
  The test of line 188 that sends a body line to the flavor string. The string literal
  of \<open>startsWith\<close> is, in the source file, the three code units U+00E2 U+20AC U+0153.
\<close>

definition isFlavorLine_art :: "jstr \<Rightarrow> bool" where
  "isFlavorLine_art cl \<longleftrightarrow>
     startsWith cl [0xE2, 0x20AC, 0x153]
     \<or> (endsWith cl (js ''.'') \<and> \<not> includesStr cl (js '':'') \<and> \<not> includesStr cl (js ''{''))"

text \<open>What the callback does with a line of a card's body (lines 186 to 192).\<close>

definition bodyLine_art :: "ArtCard \<Rightarrow> jstr \<Rightarrow> ArtCard" where
  "bodyLine_art crd cl =
     (if type_art crd = [] then crd\<lparr>type_art := cl\<rparr>
      else if isFlavorLine_art cl then crd\<lparr>flavor_art := flavor_art crd @ js '' '' @ cl\<rparr>
      else crd\<lparr>text_art := text_art crd @ [cl]\<rparr>)"

record artParser =
  cards_art :: "ArtCard list"
  currentCard :: "ArtCard option"

definition parseLine_art :: "artParser \<Rightarrow> jstr \<Rightarrow> artParser" where
  "parseLine_art st line =
     (let cl = cleanLine line
      in if cl = [] then st
         else
           (let idMatch = idTagRegex cl
            in if idMatch \<noteq> None \<or> tagRegex cl then
                 (let st' = (case currentCard st of
                               Some crd \<Rightarrow> st\<lparr>cards_art := cards_art st @ [crd]\<rparr>
                             | None \<Rightarrow> st)
                  in st'\<lparr>currentCard :=
                         Some (case idMatch of
                                 Some (g1, g2, g3) \<Rightarrow>
                                   newArtCard\<lparr>id_art := g1, name_art := g2,
                                              cost_art := (case g3 of None \<Rightarrow> [] | Some c \<Rightarrow> c)\<rparr>
                               | None \<Rightarrow> newArtCard\<lparr>name_art := cl\<rparr>)\<rparr>)
               else
                 (case currentCard st of
                    None \<Rightarrow> st
                  | Some crd \<Rightarrow> st\<lparr>currentCard := Some (bodyLine_art crd cl)\<rparr>)))"

definition parseLines_art :: "jstr list \<Rightarrow> ArtCard list" where
  "parseLines_art lines =
     (let st = foldl parseLine_art \<lparr>cards_art = [], currentCard = None\<rparr> lines
      in case currentCard st of
           Some crd \<Rightarrow> cards_art st @ [crd]
         | None \<Rightarrow> cards_art st)"

definition parseDesignBible_art :: "(jstr \<rightharpoonup> jstr) \<Rightarrow> jstr \<Rightarrow> error + ArtCard list" where
  "parseDesignBible_art fs filePath =
     (case fs filePath of
        None \<Rightarrow> Inl ENOENT
      | Some content \<Rightarrow> Inr (parseLines_art (splitLines [] content)))"

section \<open>Unfolding the definitions on concrete inputs\<close>

lemmas string_defs = js_def endsWith_def trim_def isLineTerminator_def isWhiteSpace_def isDot_def
  isDigit_def isUpperAZ_def isLowerAZ_def isUpperOrDigit_def greedyPlus_def lazyPlus_def lit_def
  cls_def atEnd_def toLowerCase_def toUpperCase_def asciiLower_def asciiUpper_def

lemmas classifier_defs = abilityWordRegex_def keywordNumberRegex_def mechanics_def isRuleLine_def

lemmas parser_defs = newCard_def costGroup_def idTagRegex_def tagRegex_def replaceSourceTag_def
  cleanLine_def isQuoted_def scanLine_def backwardScan_def finalizeCard_def initial_def
  pushOpenCard_def parseLine_def parseLines_def

lemmas color_defs = setAdd_def getColorIdentity_def

lemmas art_defs = newArtCard_def isFlavorLine_art_def bodyLine_art_def parseLine_art_def
  parseLines_art_def

section \<open>The bottom-up scan\<close>

lemma backwardScan_Nil: "backwardScan H [] = (True, [], [])"
  by (simp add: backwardScan_def)

lemma backwardScan_Cons: "backwardScan H (l # ls) = scanLine H l (backwardScan H ls)"
  by (simp add: backwardScan_def)

lemma scanLine_cases:
  "scanLine H l (pf, rs, fs) = (pf', rs', fs') \<Longrightarrow>
     (rs' = l # rs \<and> fs' = fs) \<or> (rs' = rs \<and> fs' = l # fs)"
  by (auto simp: scanLine_def Let_def split: if_splits)

lemma scanLine_quoted:
  "isQuoted line \<Longrightarrow> scanLine H line (pf, rs, fs) = (pf, rs, line # fs)"
  by (simp add: scanLine_def)

lemma scanLine_latched:
  "\<not> isQuoted line \<Longrightarrow> scanLine H line (False, rs, fs) = (False, line # rs, fs)"
  by (simp add: scanLine_def)

lemma scanLine_rule:
  "\<not> isQuoted line \<Longrightarrow> isRuleLine H line \<Longrightarrow>
     scanLine H line (pf, rs, fs) = (False, line # rs, fs)"
  by (simp add: scanLine_def)

lemma nths_Cons_in: "nths (x # xs) (insert 0 (Suc ` A)) = x # nths xs A"
proof -
  have "{j. Suc j \<in> insert 0 (Suc ` A)} = A" by auto
  then show ?thesis by (simp add: nths_Cons)
qed

lemma nths_Cons_out: "nths (x # xs) (Suc ` A) = nths xs A"
proof -
  have "{j. Suc j \<in> Suc ` A} = A" by auto
  moreover have "0 \<notin> Suc ` A" by auto
  ultimately show ?thesis by (simp add: nths_Cons)
qed

text \<open>Each position of the scanned lines goes to exactly one of the two stacks.\<close>

lemma backwardScan_positions:
  "\<exists>R F. R \<inter> F = {} \<and> R \<union> F = {..<length ls}
         \<and> fst (snd (backwardScan H ls)) = nths ls R
         \<and> snd (snd (backwardScan H ls)) = nths ls F"
proof (induction ls)
  case Nil
  show ?case by (simp add: backwardScan_Nil)
next
  case (Cons l ls)
  then obtain R F where RF: "R \<inter> F = {}" "R \<union> F = {..<length ls}"
    "fst (snd (backwardScan H ls)) = nths ls R" "snd (snd (backwardScan H ls)) = nths ls F"
    by blast
  obtain pf rs fs where st: "backwardScan H ls = (pf, rs, fs)"
    by (cases "backwardScan H ls") auto
  obtain pf' rs' fs' where st': "scanLine H l (pf, rs, fs) = (pf', rs', fs')"
    by (cases "scanLine H l (pf, rs, fs)") auto
  have all: "insert 0 (Suc ` (R \<union> F)) = {..<length (l # ls)}"
    using RF(2) by (simp add: lessThan_Suc_eq_insert_0)
  from scanLine_cases[OF st'] show ?case
  proof
    assume a: "rs' = l # rs \<and> fs' = fs"
    let ?R = "insert 0 (Suc ` R)" and ?F = "Suc ` F"
    have "?R \<union> ?F = insert 0 (Suc ` (R \<union> F))" by auto
    then have u: "?R \<union> ?F = {..<length (l # ls)}" using all by simp
    have "?R \<inter> ?F = {}" using RF(1) by auto
    moreover have "fst (snd (backwardScan H (l # ls))) = nths (l # ls) ?R"
      using a st st' RF(3) by (simp add: backwardScan_Cons nths_Cons_in)
    moreover have "snd (snd (backwardScan H (l # ls))) = nths (l # ls) ?F"
      using a st st' RF(4) by (simp add: backwardScan_Cons nths_Cons_out)
    ultimately show ?thesis using u by blast
  next
    assume a: "rs' = rs \<and> fs' = l # fs"
    let ?R = "Suc ` R" and ?F = "insert 0 (Suc ` F)"
    have "?R \<union> ?F = insert 0 (Suc ` (R \<union> F))" by auto
    then have u: "?R \<union> ?F = {..<length (l # ls)}" using all by simp
    have "?R \<inter> ?F = {}" using RF(1) by auto
    moreover have "fst (snd (backwardScan H (l # ls))) = nths (l # ls) ?R"
      using a st st' RF(3) by (simp add: backwardScan_Cons nths_Cons_out)
    moreover have "snd (snd (backwardScan H (l # ls))) = nths (l # ls) ?F"
      using a st st' RF(4) by (simp add: backwardScan_Cons nths_Cons_in)
    ultimately show ?thesis using u by blast
  qed
qed

text \<open>The quoted lines are exactly the quoted lines of the flavor stack.\<close>

lemma backwardScan_quoted_filter:
  "filter isQuoted (snd (snd (backwardScan H ls))) = filter isQuoted ls
   \<and> filter isQuoted (fst (snd (backwardScan H ls))) = []"
proof (induction ls)
  case Nil
  show ?case by (simp add: backwardScan_Nil)
next
  case (Cons l ls)
  obtain pf rs fs where st: "backwardScan H ls = (pf, rs, fs)"
    by (cases "backwardScan H ls") auto
  show ?case using Cons st
    by (cases "isQuoted l") (auto simp: backwardScan_Cons scanLine_def Let_def)
qed

text \<open>Above a line that the classifier takes for a rules line.\<close>

lemma backwardScan_above_rule:
  assumes "\<not> isQuoted r" "isRuleLine H r"
  shows "backwardScan H (higher @ r # lower) =
           (False,
            filter (\<lambda>l. \<not> isQuoted l) higher @ r # fst (snd (backwardScan H lower)),
            filter isQuoted higher @ snd (snd (backwardScan H lower)))"
proof (induction higher)
  case Nil
  obtain pf rs fs where st: "backwardScan H lower = (pf, rs, fs)"
    by (cases "backwardScan H lower") auto
  show ?case using assms st by (simp add: backwardScan_Cons scanLine_rule)
next
  case (Cons a higher)
  show ?case
    by (cases "isQuoted a") (simp_all add: backwardScan_Cons Cons scanLine_quoted scanLine_latched)
qed

lemma backwardScan_flavor_block:
  "\<forall>l \<in> set fs. \<not> isRuleLine H l \<Longrightarrow> backwardScan H fs = (True, [], fs)"
  by (induction fs) (auto simp: backwardScan_Nil backwardScan_Cons scanLine_def)

lemma backwardScan_rules_block:
  assumes "\<forall>l \<in> set rs. \<not> isQuoted l \<and> isRuleLine H l"
    and "\<forall>l \<in> set fs. \<not> isRuleLine H l"
  shows "fst (snd (backwardScan H (rs @ fs))) = rs \<and> snd (snd (backwardScan H (rs @ fs))) = fs"
  using assms(1)
proof (induction rs)
  case Nil
  show ?case using backwardScan_flavor_block[OF assms(2)] by simp
next
  case (Cons r rs)
  obtain pf xs ys where st: "backwardScan H (rs @ fs) = (pf, xs, ys)"
    by (cases "backwardScan H (rs @ fs)") auto
  with Cons show ?case by (simp add: backwardScan_Cons scanLine_rule)
qed

section \<open>Finalization\<close>

lemma finalizeCard_Some:
  "finalizeCard H (Some (g1, g2, g3)) bodyLines =
     Inr \<lparr>id_card = g1, name = g2, cost = (case g3 of None \<Rightarrow> [] | Some c \<Rightarrow> c),
          type = (case filter (\<lambda>l. length (trim l) > 0) bodyLines of [] \<Rightarrow> [] | t # _ \<Rightarrow> t),
          text_card = fst (snd (backwardScan H (drop 1 (filter (\<lambda>l. length (trim l) > 0) bodyLines)))),
          flavor = snd (snd (backwardScan H (drop 1 (filter (\<lambda>l. length (trim l) > 0) bodyLines))))\<rparr>"
  by (cases "filter (\<lambda>l. length (trim l) > 0) bodyLines")
     (simp_all add: finalizeCard_def newCard_def Let_def backwardScan_Nil split: prod.splits)

lemma finalizeCard_header:
  "finalizeCard H (Some m) bodyLines = Inr crd \<Longrightarrow>
     id_card crd = fst m \<and> name crd = fst (snd m)
     \<and> cost crd = (case snd (snd m) of None \<Rightarrow> [] | Some c \<Rightarrow> c)"
  by (cases m) (auto simp: finalizeCard_Some)

lemma finalizeCard_total: "\<exists>crd. finalizeCard H (Some m) bodyLines = Inr crd"
  by (cases m) (simp add: finalizeCard_Some)

text \<open>
  C1, as amended. A finalized card's rules lines and flavor lines are the lines at two
  sets of positions of the non-blank body lines after the type line: the two sets are
  disjoint and together hold every position, so every line occurrence is in exactly one
  of the two lists, each list keeps the order of the body, and putting the lines back at
  their positions gives the body lines again. The type line is the first non-blank body
  line. (As lists of strings the two can share a line, when the body repeats it.)
\<close>

theorem finalizeCard_partition:
  assumes "finalizeCard H idLineMatch bodyLines = Inr crd"
  shows "(case filter (\<lambda>l. length (trim l) > 0) bodyLines of
            [] \<Rightarrow> type crd = []
          | t # _ \<Rightarrow> type crd = t)
       \<and> (\<exists>R F. R \<inter> F = {}
             \<and> R \<union> F = {..<length (drop 1 (filter (\<lambda>l. length (trim l) > 0) bodyLines))}
             \<and> text_card crd = nths (drop 1 (filter (\<lambda>l. length (trim l) > 0) bodyLines)) R
             \<and> flavor crd = nths (drop 1 (filter (\<lambda>l. length (trim l) > 0) bodyLines)) F)"
proof -
  from assms obtain g1 g2 g3 where m: "idLineMatch = Some (g1, g2, g3)"
    by (cases idLineMatch) (auto simp: finalizeCard_def)
  from assms have
    "text_card crd = fst (snd (backwardScan H (drop 1 (filter (\<lambda>l. length (trim l) > 0) bodyLines))))"
    "flavor crd = snd (snd (backwardScan H (drop 1 (filter (\<lambda>l. length (trim l) > 0) bodyLines))))"
    unfolding m finalizeCard_Some by auto
  then have "\<exists>R F. R \<inter> F = {}
             \<and> R \<union> F = {..<length (drop 1 (filter (\<lambda>l. length (trim l) > 0) bodyLines))}
             \<and> text_card crd = nths (drop 1 (filter (\<lambda>l. length (trim l) > 0) bodyLines)) R
             \<and> flavor crd = nths (drop 1 (filter (\<lambda>l. length (trim l) > 0) bodyLines)) F"
    using backwardScan_positions[of "drop 1 (filter (\<lambda>l. length (trim l) > 0) bodyLines)" H]
    by simp
  moreover from assms have "(case filter (\<lambda>l. length (trim l) > 0) bodyLines of
            [] \<Rightarrow> type crd = []
          | t # _ \<Rightarrow> type crd = t)"
    unfolding m finalizeCard_Some by (auto split: list.splits)
  ultimately show ?thesis by blast
qed

text \<open>
  The theorem at a card with the body "Creature", "Flying" and a quoted line.
\<close>

theorem finalizeCard_partition_witness:
  "finalizeCard asciiHost (Some (js ''M01'', js ''Test Card'', Some (js ''{1}{W}'')))
     [js ''Creature'', js ''Flying'', 34 # js ''A quote.'' @ [34]]
     = Inr \<lparr>id_card = js ''M01'', name = js ''Test Card'', cost = js ''{1}{W}'',
            type = js ''Creature'', text_card = [js ''Flying''],
            flavor = [34 # js ''A quote.'' @ [34]]\<rparr>
   \<and> (\<exists>R F. R \<inter> F = {}
         \<and> R \<union> F = {..<length (drop 1 (filter (\<lambda>l. length (trim l) > 0)
                                      [js ''Creature'', js ''Flying'', 34 # js ''A quote.'' @ [34]]))}
         \<and> [js ''Flying''] = nths (drop 1 (filter (\<lambda>l. length (trim l) > 0)
                                      [js ''Creature'', js ''Flying'', 34 # js ''A quote.'' @ [34]])) R
         \<and> [34 # js ''A quote.'' @ [34]] = nths (drop 1 (filter (\<lambda>l. length (trim l) > 0)
                                      [js ''Creature'', js ''Flying'', 34 # js ''A quote.'' @ [34]])) F)"
proof -
  have h: "finalizeCard asciiHost (Some (js ''M01'', js ''Test Card'', Some (js ''{1}{W}'')))
     [js ''Creature'', js ''Flying'', 34 # js ''A quote.'' @ [34]]
     = Inr \<lparr>id_card = js ''M01'', name = js ''Test Card'', cost = js ''{1}{W}'',
            type = js ''Creature'', text_card = [js ''Flying''],
            flavor = [34 # js ''A quote.'' @ [34]]\<rparr>"
    by (simp add: string_defs classifier_defs parser_defs)
  from finalizeCard_partition[OF h] have
    "\<exists>R F. R \<inter> F = {}
         \<and> R \<union> F = {..<length (drop 1 (filter (\<lambda>l. length (trim l) > 0)
                                      [js ''Creature'', js ''Flying'', 34 # js ''A quote.'' @ [34]]))}
         \<and> [js ''Flying''] = nths (drop 1 (filter (\<lambda>l. length (trim l) > 0)
                                      [js ''Creature'', js ''Flying'', 34 # js ''A quote.'' @ [34]])) R
         \<and> [34 # js ''A quote.'' @ [34]] = nths (drop 1 (filter (\<lambda>l. length (trim l) > 0)
                                      [js ''Creature'', js ''Flying'', 34 # js ''A quote.'' @ [34]])) F"
    by simp
  with h show ?thesis by blast
qed

text \<open>
  The claim as written fails on a body that repeats a line: the upper "The halls repeat."
  is above the rules line "Flying" and goes to the rules lines, the lower one to the
  flavor lines, so the two lists have a line in common.
\<close>

theorem duplicate_line_in_both:
  "finalizeCard asciiHost (Some (js ''C05'', js ''Echo Chamber'', None))
     [js ''Enchantment'', js ''The halls repeat.'', js ''Flying'', js ''The halls repeat.'']
     = Inr \<lparr>id_card = js ''C05'', name = js ''Echo Chamber'', cost = [],
            type = js ''Enchantment'',
            text_card = [js ''The halls repeat.'', js ''Flying''],
            flavor = [js ''The halls repeat.'']\<rparr>
   \<and> set [js ''The halls repeat.'', js ''Flying''] \<inter> set [js ''The halls repeat.''] \<noteq> {}"
  by (simp add: string_defs classifier_defs parser_defs)

text \<open>
  C2. In the bottom-up scan a line that starts with a quotation character goes to the
  flavor lines and leaves the flag as it is, so the quoted lines of the body are exactly
  the quoted lines of the flavor lines and no rules line is quoted; the flag never goes
  back from false to true; and above a line that is not quoted and that the classifier
  takes for a rules line, every line that is not quoted goes to the rules lines (the
  quoted ones to the flavor lines). The stacks of the scan are the card's rules and flavor
  lines.
\<close>

theorem scan_quoted_and_latch:
  "(isQuoted line \<longrightarrow> scanLine H line (pf, rs, fs) = (pf, rs, line # fs))
   \<and> filter isQuoted (snd (snd (backwardScan H remaining))) = filter isQuoted remaining
   \<and> filter isQuoted (fst (snd (backwardScan H remaining))) = []
   \<and> fst (scanLine H line (False, rs, fs)) = False
   \<and> (\<not> isQuoted r \<and> isRuleLine H r \<longrightarrow>
        backwardScan H (higher @ r # lower) =
          (False,
           filter (\<lambda>l. \<not> isQuoted l) higher @ r # fst (snd (backwardScan H lower)),
           filter isQuoted higher @ snd (snd (backwardScan H lower))))
   \<and> (finalizeCard H (Some m) bodyLines = Inr crd \<longrightarrow>
        text_card crd = fst (snd (backwardScan H (drop 1 (filter (\<lambda>l. length (trim l) > 0) bodyLines))))
        \<and> flavor crd = snd (snd (backwardScan H (drop 1 (filter (\<lambda>l. length (trim l) > 0) bodyLines)))))"
proof -
  have "finalizeCard H (Some m) bodyLines = Inr crd \<longrightarrow>
        text_card crd = fst (snd (backwardScan H (drop 1 (filter (\<lambda>l. length (trim l) > 0) bodyLines))))
        \<and> flavor crd = snd (snd (backwardScan H (drop 1 (filter (\<lambda>l. length (trim l) > 0) bodyLines))))"
    by (cases m) (auto simp: finalizeCard_Some)
  moreover have "fst (scanLine H line (False, rs, fs)) = False"
    by (simp add: scanLine_def Let_def)
  ultimately show ?thesis
    using backwardScan_quoted_filter[of H remaining] backwardScan_above_rule[of r H higher lower]
      scanLine_quoted[of line H pf rs fs]
    by blast
qed

text \<open>
  The theorem on the body lines "A calm sea.", a quoted line with the vocabulary word
  "flying" in it, "Flying" and "The gulls cry.": the quoted line is a flavor line, and
  the plain line above "Flying" is a rules line.
\<close>

theorem scan_quoted_and_latch_witness:
  "isQuoted (34 # js ''No flying here.'' @ [34])
   \<and> scanLine asciiHost (34 # js ''No flying here.'' @ [34]) (True, [], [])
       = (True, [], [34 # js ''No flying here.'' @ [34]])
   \<and> \<not> isQuoted (js ''Flying'') \<and> isRuleLine asciiHost (js ''Flying'')
   \<and> backwardScan asciiHost
        ([js ''A calm sea.'', 34 # js ''No flying here.'' @ [34]] @ js ''Flying'' # [js ''The gulls cry.''])
       = (False, [js ''A calm sea.'', js ''Flying''],
          [34 # js ''No flying here.'' @ [34], js ''The gulls cry.''])"
proof -
  have q: "isQuoted (34 # js ''No flying here.'' @ [34])"
    by (simp add: isQuoted_def)
  have r: "\<not> isQuoted (js ''Flying'') \<and> isRuleLine asciiHost (js ''Flying'')"
    by (simp add: string_defs classifier_defs isQuoted_def)
  have l: "backwardScan asciiHost [js ''The gulls cry.''] = (True, [], [js ''The gulls cry.''])"
    by (simp add: string_defs classifier_defs parser_defs)
  have p: "\<not> isQuoted (js ''A calm sea.'')"
    by (simp add: string_defs isQuoted_def)
  show ?thesis
    using scan_quoted_and_latch[where line = "34 # js ''No flying here.'' @ [34]" and H = asciiHost
        and pf = True and rs = "[]" and fs = "[]" and r = "js ''Flying''"
        and higher = "[js ''A calm sea.'', 34 # js ''No flying here.'' @ [34]]"
        and lower = "[js ''The gulls cry.'']"]
      q r l p
    by simp
qed

section \<open>The classifier on the examples\<close>

text \<open>
  C4. \<open>isRuleLine\<close> is true on "Flying" (a vocabulary term) and on "{T}: Draw a card."
  (a brace), false on "A gentle breeze stirs the dust." and false on the empty string,
  whatever the host's case tables are.
\<close>

theorem isRuleLine_examples:
  "isRuleLine H (js ''Flying'')
   \<and> isRuleLine H (js ''{T}: Draw a card.'')
   \<and> \<not> isRuleLine H (js ''A gentle breeze stirs the dust.'')
   \<and> \<not> isRuleLine H []"
  by (simp add: string_defs classifier_defs)

section \<open>The scenario of one card\<close>

text \<open>
  C3. The document with the header line "3. CARD FILE" and the four lines
  "[M01] Test Card {1}{W}", "Creature [em dash] Test", "Flying" and the quoted line
  "A quote." (in straight double quotes) parses to exactly one card: id "M01", name
  "Test Card", cost "{1}{W}", that type line, the rules lines ["Flying"] and the flavor
  lines holding the quoted line only.
\<close>

theorem parse_scenario:
  "parseDesignBible H
     [filePath \<mapsto> js ''3. CARD FILE'' @ [10] @ js ''[M01] Test Card {1}{W}'' @ [10]
        @ js ''Creature '' @ [0x2014] @ js '' Test'' @ [10] @ js ''Flying'' @ [10]
        @ [34] @ js ''A quote.'' @ [34]] filePath
   = Inr ([\<lparr>id_card = js ''M01'', name = js ''Test Card'', cost = js ''{1}{W}'',
            type = js ''Creature '' @ [0x2014] @ js '' Test'',
            text_card = [js ''Flying''], flavor = [[34] @ js ''A quote.'' @ [34]]\<rparr>],
          \<lparr>flavorInfo = [], mechanicsInfo = []\<rparr>)"
  by (simp add: string_defs classifier_defs parser_defs parseDesignBible_def)

section \<open>The parser never fails on its input\<close>

lemma pushOpenCard_None:
  "currentIdLine st = None \<Longrightarrow> pushOpenCard H st = Inr st"
  by (simp add: pushOpenCard_def)

lemma pushOpenCard_Some:
  "currentIdLine st = Some m \<Longrightarrow>
     \<exists>crd. finalizeCard H (Some m) (currentBuffer st) = Inr crd
           \<and> pushOpenCard H st = Inr (st\<lparr>cards := cards st @ [crd]\<rparr>)"
  using finalizeCard_total[of H m "currentBuffer st"] by (auto simp: pushOpenCard_def)

lemma pushOpenCard_total: "\<exists>st'. pushOpenCard H st = Inr st'"
  using pushOpenCard_None[of st H] pushOpenCard_Some[of st _ H]
  by (cases "currentIdLine st") auto

lemma pushOpenCard_keeps:
  "pushOpenCard H st = Inr st' \<Longrightarrow>
     info st' = info st \<and> parsingSection st' = parsingSection st
     \<and> currentIdLine st' = currentIdLine st \<and> currentBuffer st' = currentBuffer st
     \<and> (\<exists>more. cards st' = cards st @ more)"
  by (auto simp: pushOpenCard_def split: if_splits sum.splits)

lemma parseLine_total: "\<exists>st'. parseLine H st line = Inr st'"
  using pushOpenCard_total[of H st] by (auto simp: parseLine_def Let_def)

lemma forEachLine_total: "\<exists>st'. forEachLine H st lines = Inr st'"
proof (induction lines arbitrary: st)
  case Nil
  show ?case by simp
next
  case (Cons l ls)
  obtain st1 where "parseLine H st l = Inr st1" using parseLine_total by blast
  then show ?case using Cons[of st1] by simp
qed

lemma parseLines_total: "\<exists>cs i. parseLines H lines = Inr (cs, i)"
proof -
  obtain st where a: "forEachLine H initial lines = Inr st" using forEachLine_total by blast
  obtain st' where "pushOpenCard H st = Inr st'" using pushOpenCard_total by blast
  with a show ?thesis by (simp add: parseLines_def)
qed

section \<open>Sections\<close>

lemma parseLine_stays:
  assumes "parsingSection st = CARDS"
    and "\<not> includesStr (cleanLine line) (js ''1. FLAVOR & WORLD'')"
    and "\<not> includesStr (cleanLine line) (js ''2. MECHANICAL IDENTITIES'')"
    and "parseLine H st line = Inr st'"
  shows "parsingSection st' = CARDS \<and> info st' = info st"
  using assms pushOpenCard_keeps[of H st]
  by (auto simp: parseLine_def Let_def split: if_splits sum.splits)

text \<open>
  C9, as amended. From a state in the cards section, the parser stays in the cards
  section, and appends nothing to the flavor and mechanics buckets, over every run of
  lines none of which contains "1. FLAVOR & WORLD" or "2. MECHANICAL IDENTITIES". (A
  later line with one of these substrings switches the section back: the header tests
  come before the test of the section.)
\<close>

theorem cards_section_stays:
  assumes "parsingSection st = CARDS"
    and "\<forall>line \<in> set lines. \<not> includesStr (cleanLine line) (js ''1. FLAVOR & WORLD'')
                            \<and> \<not> includesStr (cleanLine line) (js ''2. MECHANICAL IDENTITIES'')"
  shows "\<exists>st'. forEachLine H st lines = Inr st' \<and> parsingSection st' = CARDS \<and> info st' = info st"
  using assms
proof (induction lines arbitrary: st)
  case Nil
  then show ?case by simp
next
  case (Cons l ls)
  obtain st1 where s1: "parseLine H st l = Inr st1" using parseLine_total by blast
  from parseLine_stays[OF Cons.prems(1) _ _ s1] Cons.prems(2)
  have k: "parsingSection st1 = CARDS" "info st1 = info st" by auto
  from Cons.IH[OF k(1)] Cons.prems(2) obtain st' where
    "forEachLine H st1 ls = Inr st'" "parsingSection st' = CARDS" "info st' = info st1" by auto
  with s1 k(2) show ?case by simp
qed

text \<open>The theorem on a card header, a second "3. CARD FILE" line and a body line.\<close>

theorem cards_section_stays_witness:
  "\<exists>st'. forEachLine asciiHost (initial\<lparr>parsingSection := CARDS\<rparr>)
            [js ''[M01] Test Card {1}{W}'', js ''3. CARD FILE'', js ''Flying''] = Inr st'
         \<and> parsingSection st' = CARDS \<and> info st' = info (initial\<lparr>parsingSection := CARDS\<rparr>)"
proof -
  have a: "parsingSection (initial\<lparr>parsingSection := CARDS\<rparr>) = CARDS" by simp
  have b: "\<forall>line \<in> set [js ''[M01] Test Card {1}{W}'', js ''3. CARD FILE'', js ''Flying''].
             \<not> includesStr (cleanLine line) (js ''1. FLAVOR & WORLD'')
             \<and> \<not> includesStr (cleanLine line) (js ''2. MECHANICAL IDENTITIES'')"
    by (simp add: string_defs parser_defs)
  show ?thesis using cards_section_stays[OF a b] .
qed

text \<open>
  The claim as written fails: after the line "3. CARD FILE" the parser is in the cards
  section, the next line "1. FLAVOR & WORLD" puts it back in the flavor section, and the
  line after that is appended to the flavor bucket.
\<close>

theorem cards_section_reversed:
  "forEachLine asciiHost initial [js ''3. CARD FILE''] = Inr (initial\<lparr>parsingSection := CARDS\<rparr>)
   \<and> parseLines asciiHost [js ''3. CARD FILE'', js ''1. FLAVOR & WORLD'', js ''Once upon a time'']
       = Inr ([], \<lparr>flavorInfo = [js ''Once upon a time''], mechanicsInfo = []\<rparr>)"
  by (simp add: string_defs parser_defs)

section \<open>Headers that miss the full pattern\<close>

lemma forEachLine_append:
  "forEachLine H st (xs @ ys) =
     (case forEachLine H st xs of Inl e \<Rightarrow> Inl e | Inr st' \<Rightarrow> forEachLine H st' ys)"
  by (induction xs arbitrary: st) (auto split: sum.splits)

text \<open>What one line does to the emitted cards and to the open card.\<close>

lemma parseLine_cards:
  assumes "parseLine H st line = Inr st'"
  shows "(cards st' = cards st \<and> currentIdLine st' = currentIdLine st)
       \<or> (\<exists>st1 m'. pushOpenCard H st = Inr st1 \<and> cards st' = cards st1
                   \<and> currentIdLine st' = Some m')"
  using assms
  by (auto simp: parseLine_def Let_def split: if_splits sum.splits option.splits)

lemma parseLine_grows:
  assumes "parseLine H st line = Inr st'"
  shows "\<exists>more. cards st' = cards st @ more"
  using parseLine_cards[OF assms] pushOpenCard_keeps by fastforce

lemma forEachLine_grows:
  "forEachLine H st lines = Inr st' \<Longrightarrow> \<exists>more. cards st' = cards st @ more"
proof (induction lines arbitrary: st)
  case Nil
  then show ?case by simp
next
  case (Cons l ls)
  from Cons.prems obtain st1 where s1: "parseLine H st l = Inr st1"
    and s2: "forEachLine H st1 ls = Inr st'"
    by (auto split: sum.splits)
  from parseLine_grows[OF s1] Cons.IH[OF s2] show ?case by auto
qed

text \<open>
  An open card is emitted, with the id, name and cost of its header, right after the
  cards emitted before: by the next header, or at the end of the document.
\<close>

lemma open_card_is_emitted:
  assumes "currentIdLine st = Some m"
    and "forEachLine H st lines = Inr st'"
    and "pushOpenCard H st' = Inr st''"
  shows "\<exists>crd more. cards st'' = cards st @ crd # more
           \<and> id_card crd = fst m \<and> name crd = fst (snd m)
           \<and> cost crd = (case snd (snd m) of None \<Rightarrow> [] | Some c \<Rightarrow> c)"
  using assms
proof (induction lines arbitrary: st)
  case Nil
  then have "st' = st" by simp
  with Nil pushOpenCard_Some[of st m H] finalizeCard_header[of H m "currentBuffer st"]
  show ?case by auto
next
  case (Cons l ls)
  from Cons.prems(2) obtain st1 where s1: "parseLine H st l = Inr st1"
    and s2: "forEachLine H st1 ls = Inr st'"
    by (auto split: sum.splits)
  from parseLine_cards[OF s1] show ?case
  proof
    assume "cards st1 = cards st \<and> currentIdLine st1 = currentIdLine st"
    then show ?thesis using Cons.IH[of st1] Cons.prems s2 by auto
  next
    assume "\<exists>st2 m'. pushOpenCard H st = Inr st2 \<and> cards st1 = cards st2
                      \<and> currentIdLine st1 = Some m'"
    then obtain st2 m' where p: "pushOpenCard H st = Inr st2" "cards st1 = cards st2"
      by blast
    from pushOpenCard_Some[OF Cons.prems(1), of H] p(1) obtain crd where
      c: "finalizeCard H (Some m) (currentBuffer st) = Inr crd" "cards st2 = cards st @ [crd]"
      by auto
    from forEachLine_grows[OF s2] obtain more1 where "cards st' = cards st1 @ more1" by blast
    moreover from pushOpenCard_keeps[OF Cons.prems(3)] obtain more2 where
      "cards st'' = cards st' @ more2" by blast
    ultimately have "cards st'' = cards st @ crd # (more1 @ more2)" using p(2) c(2) by simp
    with finalizeCard_header[OF c(1)] show ?thesis by blast
  qed
qed

lemma tagRegex_nonempty: "tagRegex cl \<Longrightarrow> cl \<noteq> []"
  by (auto simp: tagRegex_def lit_def)

lemma parseLine_degraded:
  assumes "parsingSection st = CARDS"
    and "\<not> includesStr (cleanLine line) (js ''1. FLAVOR & WORLD'')"
    and "\<not> includesStr (cleanLine line) (js ''2. MECHANICAL IDENTITIES'')"
    and "\<not> includesStr (cleanLine line) (js ''3. CARD FILE'')"
    and "tagRegex (cleanLine line)"
    and "idTagRegex (cleanLine line) = None"
    and "pushOpenCard H st = Inr st1"
  shows "parseLine H st line =
           Inr (st1\<lparr>currentIdLine := Some (js ''UNKNOWN'', cleanLine line, Some []),
                    currentBuffer := []\<rparr>)"
  using assms tagRegex_nonempty[of "cleanLine line"] by (simp add: parseLine_def Let_def)

lemma degraded_header_gallery:
  assumes "forEachLine H initial pre = Inr st"
    and "parsingSection st = CARDS"
    and "\<not> includesStr (cleanLine line) (js ''1. FLAVOR & WORLD'')"
    and "\<not> includesStr (cleanLine line) (js ''2. MECHANICAL IDENTITIES'')"
    and "\<not> includesStr (cleanLine line) (js ''3. CARD FILE'')"
    and "tagRegex (cleanLine line)"
    and "idTagRegex (cleanLine line) = None"
  shows "\<exists>before i0 crd more i.
           parseLines H pre = Inr (before, i0)
           \<and> parseLines H (pre @ line # post) = Inr (before @ crd # more, i)
           \<and> id_card crd = js ''UNKNOWN'' \<and> name crd = cleanLine line \<and> cost crd = []"
proof -
  obtain st1 where p1: "pushOpenCard H st = Inr st1" using pushOpenCard_total by blast
  let ?st2 = "st1\<lparr>currentIdLine := Some (js ''UNKNOWN'', cleanLine line, Some []),
                  currentBuffer := []\<rparr>"
  have step: "parseLine H st line = Inr ?st2"
    using parseLine_degraded[OF assms(2-7) p1] .
  obtain st3 where f3: "forEachLine H ?st2 post = Inr st3" using forEachLine_total by blast
  obtain st4 where p4: "pushOpenCard H st3 = Inr st4" using pushOpenCard_total by blast
  have run: "forEachLine H initial (pre @ line # post) = Inr st3"
    using assms(1) step f3 by (simp add: forEachLine_append)
  have "currentIdLine ?st2 = Some (js ''UNKNOWN'', cleanLine line, Some [])" by simp
  from open_card_is_emitted[OF this f3 p4] obtain crd more where
    e: "cards st4 = cards ?st2 @ crd # more" "id_card crd = js ''UNKNOWN''"
       "name crd = cleanLine line" "cost crd = []"
    by auto
  have "parseLines H pre = Inr (cards st1, info st1)"
    using assms(1) p1 by (simp add: parseLines_def)
  moreover have "parseLines H (pre @ line # post) = Inr (cards st1 @ crd # more, info st4)"
    using run p4 e(1) by (simp add: parseLines_def)
  ultimately show ?thesis using e(2-4) by blast
qed

text \<open>The same for the parser of the art generator, which has no sections.\<close>

lemma bodyLine_art_header:
  "id_art (bodyLine_art crd cl) = id_art crd \<and> name_art (bodyLine_art crd cl) = name_art crd
   \<and> cost_art (bodyLine_art crd cl) = cost_art crd"
  by (simp add: bodyLine_art_def)

lemma parseLine_art_cases:
  "(cards_art (parseLine_art st line) = cards_art st
      \<and> (case currentCard st of
            None \<Rightarrow> currentCard (parseLine_art st line) = None
          | Some crd \<Rightarrow> \<exists>crd'. currentCard (parseLine_art st line) = Some crd'
                \<and> id_art crd' = id_art crd \<and> name_art crd' = name_art crd
                \<and> cost_art crd' = cost_art crd))
   \<or> (cards_art (parseLine_art st line) =
         cards_art st @ (case currentCard st of None \<Rightarrow> [] | Some crd \<Rightarrow> [crd])
      \<and> currentCard (parseLine_art st line) \<noteq> None)"
  by (auto simp: parseLine_art_def Let_def bodyLine_art_header split: option.splits)

lemma foldl_art_grows:
  "\<exists>more. cards_art (foldl parseLine_art st lines) = cards_art st @ more"
proof (induction lines arbitrary: st)
  case Nil
  show ?case by simp
next
  case (Cons l ls)
  from parseLine_art_cases[of st l] obtain m1 where
    "cards_art (parseLine_art st l) = cards_art st @ m1"
    by auto
  moreover from Cons[of "parseLine_art st l"] obtain m2 where
    "cards_art (foldl parseLine_art (parseLine_art st l) ls) = cards_art (parseLine_art st l) @ m2"
    by blast
  ultimately show ?case by simp
qed

lemma open_art_card_is_emitted:
  assumes "currentCard st = Some crd0"
    and "st' = foldl parseLine_art st lines"
  shows "\<exists>crd more.
           (case currentCard st' of Some x \<Rightarrow> cards_art st' @ [x] | None \<Rightarrow> cards_art st')
             = cards_art st @ crd # more
           \<and> id_art crd = id_art crd0 \<and> name_art crd = name_art crd0
           \<and> cost_art crd = cost_art crd0"
  using assms
proof (induction lines arbitrary: st crd0)
  case Nil
  then show ?case by simp
next
  case (Cons l ls)
  let ?st1 = "parseLine_art st l"
  have run: "st' = foldl parseLine_art ?st1 ls" using Cons.prems(2) by simp
  from parseLine_art_cases[of st l] show ?case
  proof
    assume "cards_art ?st1 = cards_art st
      \<and> (case currentCard st of
            None \<Rightarrow> currentCard ?st1 = None
          | Some crd \<Rightarrow> \<exists>crd'. currentCard ?st1 = Some crd'
                \<and> id_art crd' = id_art crd \<and> name_art crd' = name_art crd
                \<and> cost_art crd' = cost_art crd)"
    then obtain crd' where k: "cards_art ?st1 = cards_art st" "currentCard ?st1 = Some crd'"
      "id_art crd' = id_art crd0" "name_art crd' = name_art crd0" "cost_art crd' = cost_art crd0"
      using Cons.prems(1) by auto
    from Cons.IH[OF k(2) run] k show ?thesis by auto
  next
    assume a: "cards_art ?st1 =
        cards_art st @ (case currentCard st of None \<Rightarrow> [] | Some crd \<Rightarrow> [crd])
      \<and> currentCard ?st1 \<noteq> None"
    then have c1: "cards_art ?st1 = cards_art st @ [crd0]" using Cons.prems(1) by simp
    from foldl_art_grows[of ?st1 ls] run obtain more where
      "cards_art st' = cards_art ?st1 @ more"
      by auto
    with c1 have
      "(case currentCard st' of Some x \<Rightarrow> cards_art st' @ [x] | None \<Rightarrow> cards_art st')
         = cards_art st @ crd0 # (more @ (case currentCard st' of Some x \<Rightarrow> [x] | None \<Rightarrow> []))"
      by (simp split: option.splits)
    then show ?thesis by blast
  qed
qed

lemma parseLine_art_degraded:
  assumes "tagRegex (cleanLine line)" and "idTagRegex (cleanLine line) = None"
  shows "parseLine_art st line =
           \<lparr>cards_art = (case currentCard st of
                           Some x \<Rightarrow> cards_art st @ [x]
                         | None \<Rightarrow> cards_art st),
            currentCard = Some (newArtCard\<lparr>name_art := cleanLine line\<rparr>)\<rparr>"
  using assms tagRegex_nonempty[of "cleanLine line"]
  by (simp add: parseLine_art_def Let_def split: option.splits)

lemma degraded_header_art:
  assumes "tagRegex (cleanLine line)" and "idTagRegex (cleanLine line) = None"
  shows "\<exists>crd more. parseLines_art (pre @ line # post) = parseLines_art pre @ crd # more
           \<and> id_art crd = [] \<and> name_art crd = cleanLine line \<and> cost_art crd = []"
proof -
  let ?st = "foldl parseLine_art \<lparr>cards_art = [], currentCard = None\<rparr> pre"
  let ?st1 = "parseLine_art ?st line"
  let ?st' = "foldl parseLine_art ?st1 post"
  have s1: "?st1 = \<lparr>cards_art = (case currentCard ?st of
                                   Some x \<Rightarrow> cards_art ?st @ [x]
                                 | None \<Rightarrow> cards_art ?st),
            currentCard = Some (newArtCard\<lparr>name_art := cleanLine line\<rparr>)\<rparr>"
    using parseLine_art_degraded[OF assms] .
  then have o: "currentCard ?st1 = Some (newArtCard\<lparr>name_art := cleanLine line\<rparr>)" by simp
  from open_art_card_is_emitted[OF o refl, of post] obtain crd more where
    e: "(case currentCard ?st' of Some x \<Rightarrow> cards_art ?st' @ [x] | None \<Rightarrow> cards_art ?st')
             = cards_art ?st1 @ crd # more"
       "id_art crd = []" "name_art crd = cleanLine line" "cost_art crd = []"
    by (auto simp: newArtCard_def)
  have "parseLines_art pre = cards_art ?st1"
    using s1 by (simp add: parseLines_art_def Let_def split: option.splits)
  moreover have "parseLines_art (pre @ line # post) = cards_art ?st1 @ crd # more"
    using e(1) by (simp add: parseLines_art_def Let_def)
  ultimately show ?thesis using e(2-4) by auto
qed

text \<open>
  C7, as amended. Let a line, once cleaned, begin with a bracketed tag made of one or
  more capital letters followed by one or more digits (the fallback pattern
  \<open>/^\[[A-Z]+\d+\]/\<close>) and miss the full pattern. In the parser with sections, when
  the line is read in the cards section and contains none of the three section headers,
  it opens a new card and no error is raised: the document's cards are the cards of the
  lines before, then a card whose id is the string "UNKNOWN" (not the empty string),
  whose name is the cleaned line and whose cost is empty, then the cards of the lines
  after. In the parser of the art generator the same holds with the empty id.
\<close>

theorem degraded_header_record:
  assumes "tagRegex (cleanLine line)" and "idTagRegex (cleanLine line) = None"
  shows "(forEachLine H initial pre = Inr st \<and> parsingSection st = CARDS
          \<and> \<not> includesStr (cleanLine line) (js ''1. FLAVOR & WORLD'')
          \<and> \<not> includesStr (cleanLine line) (js ''2. MECHANICAL IDENTITIES'')
          \<and> \<not> includesStr (cleanLine line) (js ''3. CARD FILE'')
          \<longrightarrow> (\<exists>before i0 crd more i.
                 parseLines H pre = Inr (before, i0)
                 \<and> parseLines H (pre @ line # post) = Inr (before @ crd # more, i)
                 \<and> id_card crd = js ''UNKNOWN'' \<and> name crd = cleanLine line \<and> cost crd = []))
       \<and> (\<exists>crd more. parseLines_art (pre @ line # post) = parseLines_art pre @ crd # more
             \<and> id_art crd = [] \<and> name_art crd = cleanLine line \<and> cost_art crd = [])"
  using degraded_header_gallery[of H pre st line post] degraded_header_art[OF assms, of pre post] assms
  by blast

text \<open>The theorem on the header "[M01]", after the line "3. CARD FILE".\<close>

theorem degraded_header_record_witness:
  "(\<exists>before i0 crd more i.
      parseLines asciiHost [js ''3. CARD FILE''] = Inr (before, i0)
      \<and> parseLines asciiHost ([js ''3. CARD FILE''] @ js ''[M01]'' # [js ''Creature'', js ''[C02] Next''])
          = Inr (before @ crd # more, i)
      \<and> id_card crd = js ''UNKNOWN'' \<and> name crd = cleanLine (js ''[M01]'') \<and> cost crd = [])
   \<and> (\<exists>crd more.
        parseLines_art ([js ''3. CARD FILE''] @ js ''[M01]'' # [js ''Creature'', js ''[C02] Next''])
          = parseLines_art [js ''3. CARD FILE''] @ crd # more
        \<and> id_art crd = [] \<and> name_art crd = cleanLine (js ''[M01]'') \<and> cost_art crd = [])"
proof -
  have a: "forEachLine asciiHost initial [js ''3. CARD FILE'']
             = Inr (initial\<lparr>parsingSection := CARDS\<rparr>)
           \<and> parsingSection (initial\<lparr>parsingSection := CARDS\<rparr>) = CARDS
           \<and> \<not> includesStr (cleanLine (js ''[M01]'')) (js ''1. FLAVOR & WORLD'')
           \<and> \<not> includesStr (cleanLine (js ''[M01]'')) (js ''2. MECHANICAL IDENTITIES'')
           \<and> \<not> includesStr (cleanLine (js ''[M01]'')) (js ''3. CARD FILE'')"
    by (simp add: string_defs parser_defs)
  have c: "tagRegex (cleanLine (js ''[M01]''))" "idTagRegex (cleanLine (js ''[M01]'')) = None"
    by (simp_all add: string_defs parser_defs)
  show ?thesis
    using degraded_header_record[OF c, of asciiHost "[js ''3. CARD FILE'']"
        "initial\<lparr>parsingSection := CARDS\<rparr>" "[js ''Creature'', js ''[C02] Next'']"] a
    by blast
qed

text \<open>
  The claim as written fails in three ways in the parser with sections. The id of the
  card that the header "[M01]" opens is "UNKNOWN", which is not empty. A line that
  begins with a bracketed tag of letters only, "[AB]", misses the full pattern and the
  fallback pattern too: it opens no card and becomes the type line of the open card. And
  the line "[X9]3. CARD FILE" matches the fallback pattern and misses the full one, but
  contains a section header: it is taken for the header and opens no card.
\<close>

theorem degraded_header_unknown_id:
  "parseLines asciiHost [js ''3. CARD FILE'', js ''[M01]'']
     = Inr ([\<lparr>id_card = js ''UNKNOWN'', name = js ''[M01]'', cost = [], type = [],
              text_card = [], flavor = []\<rparr>], \<lparr>flavorInfo = [], mechanicsInfo = []\<rparr>)
   \<and> js ''UNKNOWN'' \<noteq> []
   \<and> idTagRegex (js ''[AB]'') = None
   \<and> parseLines asciiHost [js ''3. CARD FILE'', js ''[M01] Test Card'', js ''[AB]'']
     = Inr ([\<lparr>id_card = js ''M01'', name = js ''Test Card'', cost = [], type = js ''[AB]'',
              text_card = [], flavor = []\<rparr>], \<lparr>flavorInfo = [], mechanicsInfo = []\<rparr>)
   \<and> tagRegex (js ''[X9]3. CARD FILE'') \<and> idTagRegex (js ''[X9]3. CARD FILE'') = None
   \<and> parseLines asciiHost [js ''3. CARD FILE'', js ''[X9]3. CARD FILE'']
     = Inr ([], \<lparr>flavorInfo = [], mechanicsInfo = []\<rparr>)"
  by (simp add: string_defs parser_defs)

section \<open>Identity\<close>

text \<open>
  C5, as amended. \<open>getShardIdentity\<close> returns, for every card, one of the thirteen
  labels. When the lower-cased name contains one of the five keywords, the result is the
  label of the first keyword, in the order esper, grixis, jund, naya, bant, that the name
  contains, whatever the rules text, the colors and the type line are.
\<close>

theorem shard_total_and_name_first:
  "getShardIdentity H c \<in> set (map js
      [''The Shard of Esper (Alara)'', ''The Shard of Grixis (Alara)'', ''The Shard of Jund (Alara)'',
       ''The Shard of Naya (Alara)'', ''The Shard of Bant (Alara)'',
       ''The Conflux of Alara (Five-Color Energy)'',
       ''The Shard of Esper (Alara) or Bant'', ''The Shard of Esper (Alara) or Grixis'',
       ''The Shard of Jund (Alara) or Grixis'', ''The Shard of Jund (Alara) or Naya'',
       ''The Shard of Bant (Alara) or Naya'',
       ''The Maelstrom of Alara (Chaotic Mana Storm)'', ''The Plane of Alara''])
   \<and> (includesStr (toLowerCase H (name_art c)) (js ''esper'')
        \<longrightarrow> getShardIdentity H c = js ''The Shard of Esper (Alara)'')
   \<and> (\<not> includesStr (toLowerCase H (name_art c)) (js ''esper'')
        \<and> includesStr (toLowerCase H (name_art c)) (js ''grixis'')
        \<longrightarrow> getShardIdentity H c = js ''The Shard of Grixis (Alara)'')
   \<and> (\<not> includesStr (toLowerCase H (name_art c)) (js ''esper'')
        \<and> \<not> includesStr (toLowerCase H (name_art c)) (js ''grixis'')
        \<and> includesStr (toLowerCase H (name_art c)) (js ''jund'')
        \<longrightarrow> getShardIdentity H c = js ''The Shard of Jund (Alara)'')
   \<and> (\<not> includesStr (toLowerCase H (name_art c)) (js ''esper'')
        \<and> \<not> includesStr (toLowerCase H (name_art c)) (js ''grixis'')
        \<and> \<not> includesStr (toLowerCase H (name_art c)) (js ''jund'')
        \<and> includesStr (toLowerCase H (name_art c)) (js ''naya'')
        \<longrightarrow> getShardIdentity H c = js ''The Shard of Naya (Alara)'')
   \<and> (\<not> includesStr (toLowerCase H (name_art c)) (js ''esper'')
        \<and> \<not> includesStr (toLowerCase H (name_art c)) (js ''grixis'')
        \<and> \<not> includesStr (toLowerCase H (name_art c)) (js ''jund'')
        \<and> \<not> includesStr (toLowerCase H (name_art c)) (js ''naya'')
        \<and> includesStr (toLowerCase H (name_art c)) (js ''bant'')
        \<longrightarrow> getShardIdentity H c = js ''The Shard of Bant (Alara)'')"
proof -
  have if_mem: "\<And>b (x::jstr) y S. x \<in> S \<Longrightarrow> y \<in> S \<Longrightarrow> (if b then x else y) \<in> S"
    by simp
  have total: "getShardIdentity H c \<in> set (map js
      [''The Shard of Esper (Alara)'', ''The Shard of Grixis (Alara)'', ''The Shard of Jund (Alara)'',
       ''The Shard of Naya (Alara)'', ''The Shard of Bant (Alara)'',
       ''The Conflux of Alara (Five-Color Energy)'',
       ''The Shard of Esper (Alara) or Bant'', ''The Shard of Esper (Alara) or Grixis'',
       ''The Shard of Jund (Alara) or Grixis'', ''The Shard of Jund (Alara) or Naya'',
       ''The Shard of Bant (Alara) or Naya'',
       ''The Maelstrom of Alara (Chaotic Mana Storm)'', ''The Plane of Alara''])"
    unfolding getShardIdentity_def Let_def by (intro if_mem) simp_all
  have first: "(includesStr (toLowerCase H (name_art c)) (js ''esper'')
        \<longrightarrow> getShardIdentity H c = js ''The Shard of Esper (Alara)'')
   \<and> (\<not> includesStr (toLowerCase H (name_art c)) (js ''esper'')
        \<and> includesStr (toLowerCase H (name_art c)) (js ''grixis'')
        \<longrightarrow> getShardIdentity H c = js ''The Shard of Grixis (Alara)'')
   \<and> (\<not> includesStr (toLowerCase H (name_art c)) (js ''esper'')
        \<and> \<not> includesStr (toLowerCase H (name_art c)) (js ''grixis'')
        \<and> includesStr (toLowerCase H (name_art c)) (js ''jund'')
        \<longrightarrow> getShardIdentity H c = js ''The Shard of Jund (Alara)'')
   \<and> (\<not> includesStr (toLowerCase H (name_art c)) (js ''esper'')
        \<and> \<not> includesStr (toLowerCase H (name_art c)) (js ''grixis'')
        \<and> \<not> includesStr (toLowerCase H (name_art c)) (js ''jund'')
        \<and> includesStr (toLowerCase H (name_art c)) (js ''naya'')
        \<longrightarrow> getShardIdentity H c = js ''The Shard of Naya (Alara)'')
   \<and> (\<not> includesStr (toLowerCase H (name_art c)) (js ''esper'')
        \<and> \<not> includesStr (toLowerCase H (name_art c)) (js ''grixis'')
        \<and> \<not> includesStr (toLowerCase H (name_art c)) (js ''jund'')
        \<and> \<not> includesStr (toLowerCase H (name_art c)) (js ''naya'')
        \<and> includesStr (toLowerCase H (name_art c)) (js ''bant'')
        \<longrightarrow> getShardIdentity H c = js ''The Shard of Bant (Alara)'')"
    unfolding getShardIdentity_def Let_def by simp
  show ?thesis
    using total first by blast
qed

text \<open>
  The theorem on the card "Esper Stormwatcher": red and green, a beast, with the marker
  of another shard in its rules text, and still of Esper.
\<close>

theorem shard_total_and_name_first_witness:
  "includesStr (toLowerCase asciiHost (js ''Esper Stormwatcher'')) (js ''esper'')
   \<and> getShardIdentity asciiHost
        \<lparr>id_art = js ''U12'', name_art = js ''Esper Stormwatcher'', cost_art = js ''{R}{G}'',
         type_art = js ''Creature Beast'', text_art = [js ''Carnage 2''], flavor_art = []\<rparr>
       = js ''The Shard of Esper (Alara)''"
proof -
  have h: "includesStr (toLowerCase asciiHost (js ''Esper Stormwatcher'')) (js ''esper'')"
    by (simp add: string_defs)
  show ?thesis
    using shard_total_and_name_first[where H = asciiHost
        and c = "\<lparr>id_art = js ''U12'', name_art = js ''Esper Stormwatcher'', cost_art = js ''{R}{G}'',
                  type_art = js ''Creature Beast'', text_art = [js ''Carnage 2''], flavor_art = []\<rparr>"] h
    by simp
qed

text \<open>
  The claim as written fails on a name with two keywords: the name "Bant Esper" contains
  "bant", and the card is of Esper, not of Bant.
\<close>

theorem name_keyword_not_own_label:
  "includesStr (toLowerCase asciiHost (js ''Bant Esper'')) (js ''bant'')
   \<and> getShardIdentity asciiHost
        \<lparr>id_art = js ''R07'', name_art = js ''Bant Esper'', cost_art = js ''{G}{W}{U}'',
         type_art = js ''Creature'', text_art = [], flavor_art = []\<rparr>
       = js ''The Shard of Esper (Alara)''
   \<and> js ''The Shard of Esper (Alara)'' \<noteq> js ''The Shard of Bant (Alara)''"
  by (simp add: string_defs getShardIdentity_def)

text \<open>
  C6, as amended. \<open>getColorIdentity\<close> has no duplicates and holds exactly the tags whose
  symbol, {W}, {U}, {B}, {R} or {G}, occurs in the string that is scanned: the upper-cased
  string made of the cost, one space and the rules lines joined by single spaces (not
  their plain concatenation). With the cost "{2}{W}{U}" it is White and Blue when there
  are no rules lines, and whenever the rules lines bring none of {B}, {R}, {G} into the
  scanned string; with an empty cost it is empty when the scanned string (a space and
  the joined rules lines, upper-cased) has none of the five symbols.
\<close>

theorem colorIdentity_is_symbol_set:
  "distinct (getColorIdentity H c)
   \<and> set (getColorIdentity H c) =
       {tag. (tag = js ''White'' \<and> includesStr (toUpperCase H (cost_art c @ js '' '' @ join (js '' '') (text_art c))) (js ''{W}''))
           \<or> (tag = js ''Blue'' \<and> includesStr (toUpperCase H (cost_art c @ js '' '' @ join (js '' '') (text_art c))) (js ''{U}''))
           \<or> (tag = js ''Black'' \<and> includesStr (toUpperCase H (cost_art c @ js '' '' @ join (js '' '') (text_art c))) (js ''{B}''))
           \<or> (tag = js ''Red'' \<and> includesStr (toUpperCase H (cost_art c @ js '' '' @ join (js '' '') (text_art c))) (js ''{R}''))
           \<or> (tag = js ''Green'' \<and> includesStr (toUpperCase H (cost_art c @ js '' '' @ join (js '' '') (text_art c))) (js ''{G}''))}
   \<and> (cost_art c = js ''{2}{W}{U}'' \<and> text_art c = []
        \<longrightarrow> getColorIdentity H c = [js ''White'', js ''Blue''])
   \<and> (cost_art c = js ''{2}{W}{U}''
        \<and> \<not> includesStr (toUpperCase H (cost_art c @ js '' '' @ join (js '' '') (text_art c))) (js ''{B}'')
        \<and> \<not> includesStr (toUpperCase H (cost_art c @ js '' '' @ join (js '' '') (text_art c))) (js ''{R}'')
        \<and> \<not> includesStr (toUpperCase H (cost_art c @ js '' '' @ join (js '' '') (text_art c))) (js ''{G}'')
        \<longrightarrow> getColorIdentity H c = [js ''White'', js ''Blue''])
   \<and> (cost_art c = []
        \<and> \<not> includesStr (toUpperCase H (js '' '' @ join (js '' '') (text_art c))) (js ''{W}'')
        \<and> \<not> includesStr (toUpperCase H (js '' '' @ join (js '' '') (text_art c))) (js ''{U}'')
        \<and> \<not> includesStr (toUpperCase H (js '' '' @ join (js '' '') (text_art c))) (js ''{B}'')
        \<and> \<not> includesStr (toUpperCase H (js '' '' @ join (js '' '') (text_art c))) (js ''{R}'')
        \<and> \<not> includesStr (toUpperCase H (js '' '' @ join (js '' '') (text_art c))) (js ''{G}'')
        \<longrightarrow> getColorIdentity H c = [])"
proof -
  have tags: "js ''White'' = [87, 104, 105, 116, 101]" "js ''Blue'' = [66, 108, 117, 101]"
    "js ''Black'' = [66, 108, 97, 99, 107]" "js ''Red'' = [82, 101, 100]"
    "js ''Green'' = [71, 114, 101, 101, 110]"
    by (simp_all add: js_def)
  have d: "distinct (getColorIdentity H c)"
    by (simp add: getColorIdentity_def setAdd_def Let_def tags)
  have s: "set (getColorIdentity H c) =
       {tag. (tag = js ''White'' \<and> includesStr (toUpperCase H (cost_art c @ js '' '' @ join (js '' '') (text_art c))) (js ''{W}''))
           \<or> (tag = js ''Blue'' \<and> includesStr (toUpperCase H (cost_art c @ js '' '' @ join (js '' '') (text_art c))) (js ''{U}''))
           \<or> (tag = js ''Black'' \<and> includesStr (toUpperCase H (cost_art c @ js '' '' @ join (js '' '') (text_art c))) (js ''{B}''))
           \<or> (tag = js ''Red'' \<and> includesStr (toUpperCase H (cost_art c @ js '' '' @ join (js '' '') (text_art c))) (js ''{R}''))
           \<or> (tag = js ''Green'' \<and> includesStr (toUpperCase H (cost_art c @ js '' '' @ join (js '' '') (text_art c))) (js ''{G}''))}"
    unfolding getColorIdentity_def setAdd_def Let_def tags by auto
  have w: "cost_art c = js ''{2}{W}{U}'' \<Longrightarrow>
      includesStr (toUpperCase H (cost_art c @ js '' '' @ join (js '' '') (text_art c))) (js ''{W}'')"
    by (simp add: string_defs)
  have u: "cost_art c = js ''{2}{W}{U}'' \<Longrightarrow>
      includesStr (toUpperCase H (cost_art c @ js '' '' @ join (js '' '') (text_art c))) (js ''{U}'')"
    by (simp add: string_defs)
  have e0: "cost_art c = js ''{2}{W}{U}'' \<and> text_art c = []
        \<longrightarrow> getColorIdentity H c = [js ''White'', js ''Blue'']"
    by (simp add: string_defs color_defs)
  have e1: "cost_art c = js ''{2}{W}{U}''
        \<and> \<not> includesStr (toUpperCase H (cost_art c @ js '' '' @ join (js '' '') (text_art c))) (js ''{B}'')
        \<and> \<not> includesStr (toUpperCase H (cost_art c @ js '' '' @ join (js '' '') (text_art c))) (js ''{R}'')
        \<and> \<not> includesStr (toUpperCase H (cost_art c @ js '' '' @ join (js '' '') (text_art c))) (js ''{G}'')
        \<longrightarrow> getColorIdentity H c = [js ''White'', js ''Blue'']"
    using w u by (auto simp: getColorIdentity_def setAdd_def Let_def tags)
  have e2: "cost_art c = []
        \<and> \<not> includesStr (toUpperCase H (js '' '' @ join (js '' '') (text_art c))) (js ''{W}'')
        \<and> \<not> includesStr (toUpperCase H (js '' '' @ join (js '' '') (text_art c))) (js ''{U}'')
        \<and> \<not> includesStr (toUpperCase H (js '' '' @ join (js '' '') (text_art c))) (js ''{B}'')
        \<and> \<not> includesStr (toUpperCase H (js '' '' @ join (js '' '') (text_art c))) (js ''{R}'')
        \<and> \<not> includesStr (toUpperCase H (js '' '' @ join (js '' '') (text_art c))) (js ''{G}'')
        \<longrightarrow> getColorIdentity H c = []"
    by (simp add: getColorIdentity_def Let_def)
  show ?thesis using d s e0 e1 e2 by blast
qed

text \<open>
  The theorem on a card with the cost "{2}{W}{U}" and the rules line "Flying", and on a
  card with no cost and the rules lines "Flying" and "Draw a card.".
\<close>

theorem colorIdentity_is_symbol_set_witness:
  "getColorIdentity asciiHost
     \<lparr>id_art = js ''U03'', name_art = js ''Sky Warden'', cost_art = js ''{2}{W}{U}'',
      type_art = js ''Creature'', text_art = [js ''Flying''], flavor_art = []\<rparr>
     = [js ''White'', js ''Blue'']
   \<and> getColorIdentity asciiHost
       \<lparr>id_art = js ''C09'', name_art = js ''Drifting Kite'', cost_art = [],
        type_art = js ''Artifact'', text_art = [js ''Flying'', js ''Draw a card.''], flavor_art = []\<rparr>
     = []"
proof -
  let ?a = "\<lparr>id_art = js ''U03'', name_art = js ''Sky Warden'', cost_art = js ''{2}{W}{U}'',
             type_art = js ''Creature'', text_art = [js ''Flying''], flavor_art = []\<rparr>"
  let ?b = "\<lparr>id_art = js ''C09'', name_art = js ''Drifting Kite'', cost_art = [],
             type_art = js ''Artifact'', text_art = [js ''Flying'', js ''Draw a card.''],
             flavor_art = []\<rparr>"
  have ha: "cost_art ?a = js ''{2}{W}{U}''
     \<and> \<not> includesStr (toUpperCase asciiHost (cost_art ?a @ js '' '' @ join (js '' '') (text_art ?a))) (js ''{B}'')
     \<and> \<not> includesStr (toUpperCase asciiHost (cost_art ?a @ js '' '' @ join (js '' '') (text_art ?a))) (js ''{R}'')
     \<and> \<not> includesStr (toUpperCase asciiHost (cost_art ?a @ js '' '' @ join (js '' '') (text_art ?a))) (js ''{G}'')"
    by (simp add: string_defs)
  have hb: "cost_art ?b = []
     \<and> \<not> includesStr (toUpperCase asciiHost (js '' '' @ join (js '' '') (text_art ?b))) (js ''{W}'')
     \<and> \<not> includesStr (toUpperCase asciiHost (js '' '' @ join (js '' '') (text_art ?b))) (js ''{U}'')
     \<and> \<not> includesStr (toUpperCase asciiHost (js '' '' @ join (js '' '') (text_art ?b))) (js ''{B}'')
     \<and> \<not> includesStr (toUpperCase asciiHost (js '' '' @ join (js '' '') (text_art ?b))) (js ''{R}'')
     \<and> \<not> includesStr (toUpperCase asciiHost (js '' '' @ join (js '' '') (text_art ?b))) (js ''{G}'')"
    by (simp add: string_defs)
  show ?thesis
    using colorIdentity_is_symbol_set[where H = asciiHost and c = ?a]
      colorIdentity_is_symbol_set[where H = asciiHost and c = ?b] ha hb
    by blast
qed

text \<open>
  The claim as written fails twice. A card with the cost "{2}{W}{U}" and the rules line
  "{B}: Regenerate." is White, Blue and Black. And the string that is scanned is not the
  plain concatenation: with the cost "{" and the rules line "W}" the concatenation
  contains {W}, the scanned string has a space in between, and the card has no color.
\<close>

theorem colorIdentity_not_of_concatenation:
  "getColorIdentity asciiHost
     \<lparr>id_art = js ''U03'', name_art = js ''Sky Warden'', cost_art = js ''{2}{W}{U}'',
      type_art = js ''Creature'', text_art = [js ''{B}: Regenerate.''], flavor_art = []\<rparr>
     = [js ''White'', js ''Blue'', js ''Black'']
   \<and> includesStr (toUpperCase asciiHost (js ''{'' @ concat [js ''W}''])) (js ''{W}'')
   \<and> getColorIdentity asciiHost
       \<lparr>id_art = js ''C09'', name_art = js ''Drifting Kite'', cost_art = js ''{'',
        type_art = js ''Artifact'', text_art = [js ''W}''], flavor_art = []\<rparr>
     = []"
  by (simp add: string_defs color_defs)

section \<open>The two ways of splitting a body\<close>

lemma body_art_rules:
  "type_art crd \<noteq> [] \<Longrightarrow> \<forall>l \<in> set rs. \<not> isFlavorLine_art l \<Longrightarrow>
     foldl bodyLine_art crd rs = crd\<lparr>text_art := text_art crd @ rs\<rparr>"
  by (induction rs arbitrary: crd) (simp_all add: bodyLine_art_def)

lemma body_art_flavor:
  "type_art crd \<noteq> [] \<Longrightarrow> \<forall>l \<in> set fs. isFlavorLine_art l \<Longrightarrow>
     foldl bodyLine_art crd fs =
       crd\<lparr>flavor_art := flavor_art crd @ concat (map (\<lambda>l. js '' '' @ l) fs)\<rparr>"
  by (induction fs arbitrary: crd) (simp_all add: bodyLine_art_def)

text \<open>
  C10, as amended. The two parsers do not split every body alike. They do on a body that
  is a type line, then a block of lines that \<open>isRuleLine\<close> accepts, that do not start
  with a quotation character and that the forward test of the art generator sends to the
  rules text, then a block of lines that \<open>isRuleLine\<close> rejects and that the forward
  test sends to the flavor: both give the first block as rules lines and the second as
  flavor (the art generator as one string, each line after a space).
\<close>

theorem split_agrees_on_blocks:
  assumes "trim typeLine \<noteq> []"
    and "\<forall>l \<in> set rs. trim l \<noteq> [] \<and> \<not> isQuoted l \<and> isRuleLine H l \<and> \<not> isFlavorLine_art l"
    and "\<forall>l \<in> set fs. trim l \<noteq> [] \<and> \<not> isRuleLine H l \<and> isFlavorLine_art l"
  shows "\<exists>crd. finalizeCard H (Some m) (typeLine # rs @ fs) = Inr crd
           \<and> type crd = typeLine \<and> text_card crd = rs \<and> flavor crd = fs
           \<and> foldl bodyLine_art newArtCard (typeLine # rs @ fs)
               = newArtCard\<lparr>type_art := type crd, text_art := text_card crd,
                             flavor_art := concat (map (\<lambda>l. js '' '' @ l) (flavor crd))\<rparr>"
proof -
  obtain g1 g2 g3 where m: "m = (g1, g2, g3)" by (cases m) auto
  have keep: "filter (\<lambda>l. length (trim l) > 0) (typeLine # rs @ fs) = typeLine # rs @ fs"
    using assms by (auto simp: filter_id_conv)
  have scan: "fst (snd (backwardScan H (rs @ fs))) = rs \<and> snd (snd (backwardScan H (rs @ fs))) = fs"
    using backwardScan_rules_block[of rs H fs] assms(2,3) by blast
  have t: "typeLine \<noteq> []" using assms(1) by (auto simp: trim_def)
  have first: "bodyLine_art newArtCard typeLine = newArtCard\<lparr>type_art := typeLine\<rparr>"
    by (simp add: bodyLine_art_def newArtCard_def)
  have art: "foldl bodyLine_art newArtCard (typeLine # rs @ fs)
      = newArtCard\<lparr>type_art := typeLine, text_art := rs,
                    flavor_art := concat (map (\<lambda>l. js '' '' @ l) fs)\<rparr>"
    using assms(2,3) t
    by (simp add: first body_art_rules body_art_flavor) (simp add: newArtCard_def)
  show ?thesis
    unfolding m finalizeCard_Some keep using scan art by simp
qed

text \<open>The theorem on the body "Creature", "Flying", "A gentle breeze stirs the dust.".\<close>

theorem split_agrees_on_blocks_witness:
  "\<exists>crd. finalizeCard asciiHost (Some (js ''M01'', js ''Test Card'', None))
            (js ''Creature'' # [js ''Flying''] @ [js ''A gentle breeze stirs the dust.'']) = Inr crd
         \<and> type crd = js ''Creature'' \<and> text_card crd = [js ''Flying'']
         \<and> flavor crd = [js ''A gentle breeze stirs the dust.'']
         \<and> foldl bodyLine_art newArtCard
              (js ''Creature'' # [js ''Flying''] @ [js ''A gentle breeze stirs the dust.''])
             = newArtCard\<lparr>type_art := type crd, text_art := text_card crd,
                           flavor_art := concat (map (\<lambda>l. js '' '' @ l) (flavor crd))\<rparr>"
proof -
  have a: "trim (js ''Creature'') \<noteq> []" by (simp add: string_defs)
  have b: "\<forall>l \<in> set [js ''Flying''].
             trim l \<noteq> [] \<and> \<not> isQuoted l \<and> isRuleLine asciiHost l \<and> \<not> isFlavorLine_art l"
    by (simp add: string_defs classifier_defs parser_defs art_defs)
  have c: "\<forall>l \<in> set [js ''A gentle breeze stirs the dust.''].
             trim l \<noteq> [] \<and> \<not> isRuleLine asciiHost l \<and> isFlavorLine_art l"
    by (simp add: string_defs classifier_defs parser_defs art_defs)
  show ?thesis using split_agrees_on_blocks[OF a b c] .
qed

text \<open>
  The claim as written fails on the body line "Draw a card.": it ends with a period and
  has no colon and no brace, so the art generator takes it for flavor, and it contains
  "draw", so the bottom-up scan takes it for a rules line.
\<close>

theorem variants_differ:
  "parseLines asciiHost
     [js ''3. CARD FILE'', js ''[C01] Scholar {U}'', js ''Creature'', js ''Draw a card.'']
     = Inr ([\<lparr>id_card = js ''C01'', name = js ''Scholar'', cost = js ''{U}'', type = js ''Creature'',
              text_card = [js ''Draw a card.''], flavor = []\<rparr>],
            \<lparr>flavorInfo = [], mechanicsInfo = []\<rparr>)
   \<and> parseLines_art
     [js ''3. CARD FILE'', js ''[C01] Scholar {U}'', js ''Creature'', js ''Draw a card.'']
     = [\<lparr>id_art = js ''C01'', name_art = js ''Scholar'', cost_art = js ''{U}'', type_art = js ''Creature'',
         text_art = [], flavor_art = js '' Draw a card.''\<rparr>]"
  by (simp add: string_defs classifier_defs parser_defs art_defs)

section \<open>No failure in parsing, classifying and deriving\<close>

lemma isRuleLine_tests:
  "isRuleLine H line \<longleftrightarrow>
     includesStr line (js ''{'') \<or> includesStr line (js ''}'')
     \<or> abilityWordRegex line \<or> keywordNumberRegex line
     \<or> list_ex (\<lambda>t. includesStr (toLowerCase H line) t) mechanics"
  by (simp add: isRuleLine_def Let_def)

lemma getColorIdentity_tags:
  "distinct (getColorIdentity H c)
   \<and> set (getColorIdentity H c)
       \<subseteq> {js ''White'', js ''Blue'', js ''Black'', js ''Red'', js ''Green''}"
proof -
  have tags: "js ''White'' = [87, 104, 105, 116, 101]" "js ''Blue'' = [66, 108, 117, 101]"
    "js ''Black'' = [66, 108, 97, 99, 107]" "js ''Red'' = [82, 101, 100]"
    "js ''Green'' = [71, 114, 101, 101, 110]"
    by (simp_all add: js_def)
  show ?thesis
    unfolding getColorIdentity_def setAdd_def Let_def tags by auto
qed

lemma getShardIdentity_label:
  "getShardIdentity H c \<in> set (map js
      [''The Shard of Esper (Alara)'', ''The Shard of Grixis (Alara)'', ''The Shard of Jund (Alara)'',
       ''The Shard of Naya (Alara)'', ''The Shard of Bant (Alara)'',
       ''The Conflux of Alara (Five-Color Energy)'',
       ''The Shard of Esper (Alara) or Bant'', ''The Shard of Esper (Alara) or Grixis'',
       ''The Shard of Jund (Alara) or Grixis'', ''The Shard of Jund (Alara) or Naya'',
       ''The Shard of Bant (Alara) or Naya'',
       ''The Maelstrom of Alara (Chaotic Mana Storm)'', ''The Plane of Alara''])"
proof -
  have if_mem: "\<And>b (x::jstr) y S. x \<in> S \<Longrightarrow> y \<in> S \<Longrightarrow> (if b then x else y) \<in> S"
    by simp
  show ?thesis
    unfolding getShardIdentity_def Let_def by (intro if_mem) simp_all
qed

text \<open>
  C8. For every document text the parser returns a result: the scan of the lines and the
  finalization of every card end without an error, whatever the lines are, and the
  TypeError of \<open>finalizeCard\<close> on \<open>null\<close> is never reached. \<open>parseDesignBible\<close> fails
  only on the missing file, with the ENOENT of \<open>readFileSync\<close>, before any line is
  parsed, and on a file that is there it returns the parse of the content. The
  classifier answers on every line, by its four tests; the identity functions give every
  card a duplicate-free list of the five color tags and one of the thirteen labels.
\<close>

theorem parse_total:
  "(\<exists>cs i. parseLines H (splitLines [] content) = Inr (cs, i))
   \<and> parseDesignBible H fs filePath \<noteq> Inl TypeError
   \<and> (fs filePath = None \<longrightarrow> parseDesignBible H fs filePath = Inl ENOENT)
   \<and> (fs filePath = Some content \<longrightarrow>
        parseDesignBible H fs filePath = parseLines H (splitLines [] content)
        \<and> (\<exists>cs i. parseDesignBible H fs filePath = Inr (cs, i)))
   \<and> (parseDesignBible H fs filePath = Inl e \<longrightarrow> e = ENOENT \<and> fs filePath = None)
   \<and> (isRuleLine H line \<longleftrightarrow>
        includesStr line (js ''{'') \<or> includesStr line (js ''}'')
        \<or> abilityWordRegex line \<or> keywordNumberRegex line
        \<or> list_ex (\<lambda>t. includesStr (toLowerCase H line) t) mechanics)
   \<and> distinct (getColorIdentity H c)
   \<and> set (getColorIdentity H c)
       \<subseteq> {js ''White'', js ''Blue'', js ''Black'', js ''Red'', js ''Green''}
   \<and> getShardIdentity H c \<in> set (map js
      [''The Shard of Esper (Alara)'', ''The Shard of Grixis (Alara)'', ''The Shard of Jund (Alara)'',
       ''The Shard of Naya (Alara)'', ''The Shard of Bant (Alara)'',
       ''The Conflux of Alara (Five-Color Energy)'',
       ''The Shard of Esper (Alara) or Bant'', ''The Shard of Esper (Alara) or Grixis'',
       ''The Shard of Jund (Alara) or Grixis'', ''The Shard of Jund (Alara) or Naya'',
       ''The Shard of Bant (Alara) or Naya'',
       ''The Maelstrom of Alara (Chaotic Mana Storm)'', ''The Plane of Alara''])"
proof -
  have a: "\<exists>cs i. parseLines H (splitLines [] content) = Inr (cs, i)"
    using parseLines_total by blast
  have b: "parseDesignBible H fs filePath \<noteq> Inl TypeError"
    using parseLines_total[of H "splitLines [] (the (fs filePath))"]
    by (cases "fs filePath") (auto simp: parseDesignBible_def)
  have c: "fs filePath = None \<longrightarrow> parseDesignBible H fs filePath = Inl ENOENT"
    by (simp add: parseDesignBible_def)
  have d: "fs filePath = Some content \<longrightarrow>
        parseDesignBible H fs filePath = parseLines H (splitLines [] content)
        \<and> (\<exists>cs i. parseDesignBible H fs filePath = Inr (cs, i))"
    using a by (auto simp: parseDesignBible_def)
  have e: "parseDesignBible H fs filePath = Inl e \<longrightarrow> e = ENOENT \<and> fs filePath = None"
    using parseLines_total[of H "splitLines [] (the (fs filePath))"]
    by (cases "fs filePath") (auto simp: parseDesignBible_def)
  show ?thesis
    using a b c d e isRuleLine_tests[of H line] getColorIdentity_tags[of H c]
      getShardIdentity_label[of H c]
    by blast
qed

text \<open>
  The theorem without the file, and with a file of the line "3. CARD FILE", a header that
  misses the full pattern, a blank line, a full header, a rules line and a line of stray
  brackets: two cards are finalized.
\<close>

theorem parse_total_witness:
  "parseDesignBible asciiHost Map.empty (js ''alara_design_bible.txt'') = Inl ENOENT
   \<and> parseDesignBible asciiHost
        [js ''alara_design_bible.txt'' \<mapsto>
           js ''3. CARD FILE'' @ [13, 10] @ js ''[M01]'' @ [10] @ js ''Creature'' @ [10] @ [10]
           @ js ''[C02] Next {1}'' @ [10] @ js ''Flying'' @ [10] @ js '']][[ {'']
        (js ''alara_design_bible.txt'')
       = Inr ([\<lparr>id_card = js ''UNKNOWN'', name = js ''[M01]'', cost = [], type = js ''Creature'',
                text_card = [], flavor = []\<rparr>,
               \<lparr>id_card = js ''C02'', name = js ''Next'', cost = js ''{1}'', type = js ''Flying'',
                text_card = [js '']][[ {''], flavor = []\<rparr>],
              \<lparr>flavorInfo = [], mechanicsInfo = []\<rparr>)
   \<and> parseDesignBible asciiHost
        [js ''alara_design_bible.txt'' \<mapsto>
           js ''3. CARD FILE'' @ [13, 10] @ js ''[M01]'' @ [10] @ js ''Creature'' @ [10] @ [10]
           @ js ''[C02] Next {1}'' @ [10] @ js ''Flying'' @ [10] @ js '']][[ {'']
        (js ''alara_design_bible.txt'')
       \<noteq> Inl TypeError"
  using parse_total[where fs = Map.empty and filePath = "js ''alara_design_bible.txt''"
      and H = asciiHost]
    parse_total[where fs = "[js ''alara_design_bible.txt'' \<mapsto>
           js ''3. CARD FILE'' @ [13, 10] @ js ''[M01]'' @ [10] @ js ''Creature'' @ [10] @ [10]
           @ js ''[C02] Next {1}'' @ [10] @ js ''Flying'' @ [10] @ js '']][[ {'']"
      and filePath = "js ''alara_design_bible.txt''"
      and content = "js ''3. CARD FILE'' @ [13, 10] @ js ''[M01]'' @ [10] @ js ''Creature'' @ [10] @ [10]
           @ js ''[C02] Next {1}'' @ [10] @ js ''Flying'' @ [10] @ js '']][[ {''"
      and H = asciiHost]
  by (simp add: string_defs classifier_defs parser_defs parseDesignBible_def)

end
